theory Spec2Isabelle
  imports Main "HOL-Library.Word"
begin

section \<open>JavaScript strings\<close>

text \<open>
  A JavaScript string is a sequence of UTF-16 code units. Literals of the source are
  written \<open>js ''...''\<close>. An optional string (\<open>string | undefined\<close>) is a
  \<open>jsstring option\<close>.
\<close>

type_synonym jschar = "16 word"
type_synonym jsstring = "jschar list"

definition js :: "string \<Rightarrow> jsstring" where
  "js s = map (\<lambda>c. of_nat (of_char c)) s"

text \<open>
  \<open>String.prototype.trim\<close> strips the code units of the grammar productions
  WhiteSpace and LineTerminator from both ends.
\<close>

definition isWhiteSpace :: "jschar \<Rightarrow> bool" where
  "isWhiteSpace c =
     (c = 0x0009 \<or> c = 0x000B \<or> c = 0x000C \<or> c = 0xFEFF
      \<or> c = 0x0020 \<or> c = 0x00A0 \<or> c = 0x1680 \<or> (0x2000 \<le> c \<and> c \<le> 0x200A)
      \<or> c = 0x202F \<or> c = 0x205F \<or> c = 0x3000
      \<or> c = 0x000A \<or> c = 0x000D \<or> c = 0x2028 \<or> c = 0x2029)"

definition trim :: "jsstring \<Rightarrow> jsstring" where
  "trim s = rev (dropWhile isWhiteSpace (rev (dropWhile isWhiteSpace s)))"

text \<open>
  \<open>s.split(sep)\<close> for a separator of one code unit: the pieces between the
  separators, in order; \<open>n\<close> separators give \<open>n + 1\<close> pieces, empty ones included.
\<close>

fun split_from :: "jschar \<Rightarrow> jsstring \<Rightarrow> jsstring \<Rightarrow> jsstring list" where
  "split_from sep cur [] = [rev cur]"
| "split_from sep cur (c # cs) =
     (if c = sep then rev cur # split_from sep [] cs else split_from sep (c # cur) cs)"

definition split :: "jsstring \<Rightarrow> jschar \<Rightarrow> jsstring list" where
  "split s sep = split_from sep [] s"

definition comma :: jschar where
  "comma = 0x2C"

text \<open>Truthiness of a string and of an optional string: defined and not empty.\<close>

definition truthy :: "jsstring \<Rightarrow> bool" where
  "truthy s = (s \<noteq> [])"

definition truthy_opt :: "jsstring option \<Rightarrow> bool" where
  "truthy_opt v = (case v of None \<Rightarrow> False | Some s \<Rightarrow> s \<noteq> [])"

section \<open>Effects: events, thrown errors, process exit\<close>

text \<open>
  A thrown value is either an axios error, with the status of its response when there
  is one, or any other error.
\<close>

datatype error = AxiosError "nat option" | Error jsstring

fun isAxiosError :: "error \<Rightarrow> bool" where
  "isAxiosError (AxiosError st) = True"
| "isAxiosError (Error m) = False"

fun response_status :: "error \<Rightarrow> nat option" where
  "response_status (AxiosError st) = st"
| "response_status (Error m) = None"

text \<open>
  Every call of \<open>main.ts\<close> into \<open>@actions/core\<close>, \<open>@actions/tool-cache\<close>,
  \<open>setup-cloud-sdk\<close>, axios and every write to \<open>process.env\<close> is an event; a run
  produces the list of its events in program order.
\<close>

datatype event =
    AxiosGet jsstring nat
  | CoreError jsstring
  | CoreInfo jsstring
  | CoreWarning jsstring
  | CoreDebug jsstring
  | ExportVariable jsstring jsstring
  | SetProcessEnv jsstring jsstring
  | GetInput jsstring
  | AddPath jsstring
  | SetOutput jsstring "jsstring option"
  | SetFailed jsstring
  | BestVersion jsstring
  | ToolCacheFind jsstring jsstring
  | InstallGcloudSDK jsstring bool
  | InstallComponent "jsstring list"
  | AuthenticateGcloudSDK jsstring
  | IsAuthenticated
  | SetProject jsstring

text \<open>
  A piece of code returns a value, throws, or ends the process with
  \<open>process.exit(code)\<close>.
\<close>

datatype 'a outcome = Done 'a | Throw error | Exit nat

type_synonym 'a action = "event list \<times> 'a outcome"

definition ret :: "'a \<Rightarrow> 'a action" where
  "ret x = ([], Done x)"

definition emit :: "event \<Rightarrow> unit action" where
  "emit e = ([e], Done ())"

definition lift :: "error + 'a \<Rightarrow> 'a action" where
  "lift r = ([], case r of Inl err \<Rightarrow> Throw err | Inr x \<Rightarrow> Done x)"

definition call :: "event \<Rightarrow> error + 'a \<Rightarrow> 'a action" where
  "call e r = ([e], case r of Inl err \<Rightarrow> Throw err | Inr x \<Rightarrow> Done x)"

definition exit :: "nat \<Rightarrow> 'a action" where
  "exit n = ([], Exit n)"

definition andThen :: "'a action \<Rightarrow> ('a \<Rightarrow> 'b action) \<Rightarrow> 'b action" where
  "andThen m f =
     (case snd m of
        Done x \<Rightarrow> (fst m @ fst (f x), snd (f x))
      | Throw err \<Rightarrow> (fst m, Throw err)
      | Exit n \<Rightarrow> (fst m, Exit n))"

definition try_catch :: "'a action \<Rightarrow> (error \<Rightarrow> 'a action) \<Rightarrow> 'a action" where
  "try_catch m h =
     (case snd m of
        Done x \<Rightarrow> m
      | Throw err \<Rightarrow> (fst m @ fst (h err), snd (h err))
      | Exit n \<Rightarrow> m)"

section \<open>The environment of a run\<close>

text \<open>
  What the run reads and what the libraries it calls answer. The imported functions are
  not part of this repository: each is a parameter, throwing (\<open>Inl\<close>) or returning
  (\<open>Inr\<close>). \<open>main.ts\<close> calls each of them at most once in a run, so a function of
  the arguments describes the answer of that call.

  \<open>getInput\<close> is what \<open>core.getInput\<close> returns for an input name (the empty string
  for an input that is not given), \<open>parseBoolean\<close> and \<open>presence\<close> are the functions
  of \<open>actions-utils\<close> (\<open>presence\<close> returns \<open>undefined\<close>, here \<open>None\<close>, for a
  blank string), \<open>GITHUB_REPOSITORY\<close> and \<open>GOOGLE_GHA_CREDS_PATH\<close> are the values of
  these variables in \<open>process.env\<close>, \<open>appVersion\<close> is the version field of
  \<open>package.json\<close>. The logging and output functions of \<open>@actions/core\<close>,
  \<open>isPinnedToHead\<close>, \<open>pinnedToHeadWarning\<close>, \<open>errorMessage\<close> and \<open>path.join\<close>
  are taken not to throw.
\<close>

record env =
  GITHUB_REPOSITORY :: "jsstring option"
  GOOGLE_GHA_CREDS_PATH :: "jsstring option"
  appVersion :: jsstring
  axios_get :: "jsstring \<Rightarrow> error + unit"
  getInput :: "jsstring \<Rightarrow> jsstring"
  parseBoolean :: "jsstring \<Rightarrow> error + bool"
  presence :: "jsstring \<Rightarrow> jsstring option"
  isPinnedToHead :: bool
  pinnedToHeadWarning :: "jsstring \<Rightarrow> jsstring"
  errorMessage :: "error \<Rightarrow> jsstring"
  path_join :: "jsstring \<Rightarrow> jsstring \<Rightarrow> jsstring"
  bestVersion :: "jsstring \<Rightarrow> error + jsstring"
  toolCache_find :: "jsstring \<Rightarrow> jsstring \<Rightarrow> error + jsstring"
  installGcloudSDK :: "jsstring \<Rightarrow> bool \<Rightarrow> error + unit"
  installComponent :: "jsstring list \<Rightarrow> error + unit"
  authenticateGcloudSDK :: "jsstring \<Rightarrow> error + unit"
  isAuthenticated :: "error + bool"
  setProject :: "jsstring \<Rightarrow> error + unit"

definition core_getInput :: "env \<Rightarrow> jsstring \<Rightarrow> jsstring action" where
  "core_getInput env name = ([GetInput name], Done (getInput env name))"

section \<open>validateSubscription (main.ts, lines 42--55)\<close>

definition API_URL :: "env \<Rightarrow> jsstring" where
  "API_URL env =
     js ''https://agent.api.stepsecurity.io/v1/github/''
     @ (case GITHUB_REPOSITORY env of None \<Rightarrow> js ''undefined'' | Some r \<Rightarrow> r)
     @ js ''/actions/subscription''"

definition subscription_invalid :: jsstring where
  "subscription_invalid = js ''Subscription is not valid. Reach out to support@stepsecurity.io''"

definition api_not_reachable :: jsstring where
  "api_not_reachable = js ''Timeout or API not reachable. Continuing to next step.''"

definition validateSubscription :: "env \<Rightarrow> unit action" where
  "validateSubscription env =
     try_catch
       (call (AxiosGet (API_URL env) 3000) (axios_get env (API_URL env)))
       (\<lambda>error.
          if isAxiosError error \<and> response_status error = Some 403
          then andThen (emit (CoreError subscription_invalid)) (\<lambda>_. exit 1)
          else emit (CoreInfo api_not_reachable))"

section \<open>run (main.ts, lines 57--154)\<close>

subsection \<open>Lines 73--77: the inputs\<close>

record step_inputs =
  skipInstall :: bool
  version :: "jsstring option"
  components :: jsstring
  projectId :: jsstring
  cache :: bool

definition read_inputs :: "env \<Rightarrow> step_inputs action" where
  "read_inputs env =
     andThen (core_getInput env (js ''skip_install'')) (\<lambda>s.
     andThen (lift (parseBoolean env s)) (\<lambda>skipInstall'.
     andThen (core_getInput env (js ''version'')) (\<lambda>v.
     andThen (core_getInput env (js ''install_components'')) (\<lambda>components'.
     andThen (core_getInput env (js ''project_id'')) (\<lambda>projectId'.
     andThen (core_getInput env (js ''cache'')) (\<lambda>c.
     andThen (lift (parseBoolean env c)) (\<lambda>cache'.
     ret \<lparr>skipInstall = skipInstall', version = presence env v,
          components = components', projectId = projectId', cache = cache'\<rparr>)))))))"

subsection \<open>Lines 79--114: skip or install\<close>

definition skipping_installation :: jsstring where
  \<open>skipping_installation = js ''Skipping installation ("skip_install" was true)''\<close>

definition ignoring_version :: jsstring where
  \<open>ignoring_version = js ''Ignoring "version" because "skip_install" was true!''\<close>

definition custom_components_may_fail :: jsstring where
  \<open>custom_components_may_fail =
     js ''Installing custom components with the system-provided gcloud may fail. ''
     @ js ''Set "skip_install" to false to install a managed version.''\<close>

definition any_version :: jsstring where
  "any_version = js ''> 0.0.0''"

definition latest :: jsstring where
  "latest = js ''latest''"

definition gcloud :: jsstring where
  "gcloud = js ''gcloud''"

text \<open>Lines 80--90. The variable \<open>version\<close> is left as it was read.\<close>

definition skip_installation :: "step_inputs \<Rightarrow> jsstring option action" where
  "skip_installation inp =
     andThen (emit (CoreInfo skipping_installation)) (\<lambda>_.
     andThen (if truthy_opt (version inp) \<and> version inp \<noteq> Some latest
              then emit (CoreWarning ignoring_version) else ret ()) (\<lambda>_.
     andThen (if truthy (components inp)
              then emit (CoreWarning custom_components_may_fail) else ret ()) (\<lambda>_.
     ret (version inp))))"

text \<open>Lines 96--104: the value of \<open>version\<close> after the two conditionals.\<close>

definition resolve_version :: "env \<Rightarrow> jsstring option \<Rightarrow> jsstring action" where
  \<open>resolve_version env version0 =
     andThen (case version0 of
                None \<Rightarrow>
                  andThen (emit (CoreDebug (js ''version was unset, defaulting to any version'')))
                    (\<lambda>_. ret any_version)
              | Some v \<Rightarrow>
                  if v = []
                  then andThen (emit (CoreDebug (js ''version was unset, defaulting to any version'')))
                         (\<lambda>_. ret any_version)
                  else ret v) (\<lambda>version1.
     if version1 = latest
     then andThen (emit (CoreDebug (js ''resolving latest version''))) (\<lambda>_.
          andThen (call (BestVersion any_version) (bestVersion env any_version)) (\<lambda>version2.
          andThen (emit (CoreDebug (js ''resolved latest version to '' @ version2))) (\<lambda>_.
          ret version2)))
     else ret version1)\<close>

text \<open>Lines 107--113.\<close>

definition find_or_install :: "env \<Rightarrow> jsstring \<Rightarrow> bool \<Rightarrow> unit action" where
  \<open>find_or_install env version1 cache1 =
     andThen (call (ToolCacheFind gcloud version1) (toolCache_find env gcloud version1))
       (\<lambda>toolPath.
          if toolPath \<noteq> []
          then emit (AddPath (path_join env toolPath (js ''bin'')))
          else andThen (emit (CoreDebug (js ''no version of gcloud matching "'' @ version1
                                          @ js ''" is installed'')))
                 (\<lambda>_. call (InstallGcloudSDK version1 cache1)
                              (installGcloudSDK env version1 cache1)))\<close>

definition install_or_skip :: "env \<Rightarrow> step_inputs \<Rightarrow> jsstring option action" where
  "install_or_skip env inp =
     (if skipInstall inp then skip_installation inp
      else andThen (resolve_version env (version inp)) (\<lambda>version1.
           andThen (find_or_install env version1 (cache inp)) (\<lambda>_.
           ret (Some version1))))"

subsection \<open>Lines 117--119: additional components\<close>

definition install_components :: "env \<Rightarrow> jsstring \<Rightarrow> unit action" where
  "install_components env components1 =
     (if truthy components1
      then call (InstallComponent (map trim (split components1 comma)))
                (installComponent env (map trim (split components1 comma)))
      else ret ())"

subsection \<open>Lines 122--141: authentication\<close>

definition not_authenticated :: jsstring where
  \<open>not_authenticated =
     js ''The gcloud CLI is not authenticated (or it is not installed). ''
     @ js ''Authenticate by adding the "google-github-actions/auth" step ''
     @ js ''prior this one.''\<close>

definition authenticate :: "env \<Rightarrow> unit action" where
  "authenticate env =
     (if truthy_opt (GOOGLE_GHA_CREDS_PATH env)
      then (case GOOGLE_GHA_CREDS_PATH env of
              None \<Rightarrow> ret ()
            | Some credFile \<Rightarrow>
                andThen (call (AuthenticateGcloudSDK credFile) (authenticateGcloudSDK env credFile))
                  (\<lambda>_. emit (CoreInfo (js ''Successfully authenticated''))))
      else andThen (try_catch (call IsAuthenticated (isAuthenticated env)) (\<lambda>_. ret False))
             (\<lambda>authed. if \<not> authed then emit (CoreWarning not_authenticated) else ret ()))"

subsection \<open>Lines 144--147: the project\<close>

definition set_project :: "env \<Rightarrow> jsstring \<Rightarrow> unit action" where
  "set_project env projectId1 =
     (if truthy projectId1
      then andThen (call (SetProject projectId1) (setProject env projectId1))
             (\<lambda>_. emit (CoreInfo (js ''Successfully set default project'')))
      else ret ())"

subsection \<open>Lines 72--153: the error boundary\<close>

definition run_steps :: "env \<Rightarrow> step_inputs \<Rightarrow> unit action" where
  "run_steps env inp =
     andThen (install_or_skip env inp) (\<lambda>version1.
     andThen (install_components env (components inp)) (\<lambda>_.
     andThen (authenticate env) (\<lambda>_.
     andThen (set_project env (projectId inp)) (\<lambda>_.
     emit (SetOutput (js ''version'') version1)))))"

definition run_body :: "env \<Rightarrow> unit action" where
  "run_body env = andThen (read_inputs env) (run_steps env)"

definition failed_with :: jsstring where
  "failed_with = js ''google-github-actions/setup-gcloud failed with: ''"

definition run_main :: "env \<Rightarrow> unit action" where
  "run_main env =
     try_catch (run_body env) (\<lambda>err. emit (SetFailed (failed_with @ errorMessage env err)))"

subsection \<open>Lines 58--70: before the error boundary\<close>

definition preflight :: "env \<Rightarrow> unit action" where
  "preflight env =
     andThen (validateSubscription env) (\<lambda>_.
     andThen (emit (ExportVariable (js ''CLOUDSDK_METRICS_ENVIRONMENT'')
                                   (js ''github-actions-setup-gcloud''))) (\<lambda>_.
     andThen (emit (ExportVariable (js ''CLOUDSDK_METRICS_ENVIRONMENT_VERSION'')
                                   (appVersion env))) (\<lambda>_.
     andThen (emit (SetProcessEnv (js ''CLOUDSDK_CORE_DISABLE_PROMPTS'') (js ''1''))) (\<lambda>_.
     if isPinnedToHead env
     then emit (CoreWarning (pinnedToHeadWarning env (js ''v3'')))
     else ret ()))))"

definition run :: "env \<Rightarrow> unit action" where
  "run env = andThen (preflight env) (\<lambda>_. run_main env)"

section \<open>Observations on the events of a run\<close>

text \<open>The arguments of the calls of one operation, in the order of the calls.\<close>

definition installs :: "event list \<Rightarrow> (jsstring \<times> bool) list" where
  "installs t = [(v, c). InstallGcloudSDK v c \<leftarrow> t]"

definition finds :: "event list \<Rightarrow> (jsstring \<times> jsstring) list" where
  "finds t = [(n, v). ToolCacheFind n v \<leftarrow> t]"

definition resolutions :: "event list \<Rightarrow> jsstring list" where
  "resolutions t = [a. BestVersion a \<leftarrow> t]"

definition addpaths :: "event list \<Rightarrow> jsstring list" where
  "addpaths t = [p. AddPath p \<leftarrow> t]"

definition component_installs :: "event list \<Rightarrow> jsstring list list" where
  "component_installs t = [l. InstallComponent l \<leftarrow> t]"

definition authentications :: "event list \<Rightarrow> jsstring list" where
  "authentications t = [p. AuthenticateGcloudSDK p \<leftarrow> t]"

definition status_checks :: "event list \<Rightarrow> unit list" where
  "status_checks t = [(). IsAuthenticated \<leftarrow> t]"

definition project_settings :: "event list \<Rightarrow> jsstring list" where
  "project_settings t = [p. SetProject p \<leftarrow> t]"

definition outputs :: "event list \<Rightarrow> (jsstring \<times> jsstring option) list" where
  "outputs t = [(k, v). SetOutput k v \<leftarrow> t]"

definition failures :: "event list \<Rightarrow> jsstring list" where
  "failures t = [m. SetFailed m \<leftarrow> t]"

definition warnings :: "event list \<Rightarrow> jsstring list" where
  "warnings t = [m. CoreWarning m \<leftarrow> t]"

definition exports :: "event list \<Rightarrow> (jsstring \<times> jsstring) list" where
  "exports t = [(k, v). ExportVariable k v \<leftarrow> t]"

definition process_env_writes :: "event list \<Rightarrow> (jsstring \<times> jsstring) list" where
  "process_env_writes t = [(k, v). SetProcessEnv k v \<leftarrow> t]"

definition inputs_read :: "event list \<Rightarrow> jsstring list" where
  "inputs_read t = [n. GetInput n \<leftarrow> t]"

text \<open>
  A call event of an operation inside the error boundary whose call raised. The
  authentication-status check is left out: its exception is caught at the call.
\<close>

definition raised :: "env \<Rightarrow> event \<Rightarrow> bool" where
  "raised env e =
     (case e of
        BestVersion a \<Rightarrow> isl (bestVersion env a)
      | ToolCacheFind n v \<Rightarrow> isl (toolCache_find env n v)
      | InstallGcloudSDK v c \<Rightarrow> isl (installGcloudSDK env v c)
      | InstallComponent l \<Rightarrow> isl (installComponent env l)
      | AuthenticateGcloudSDK p \<Rightarrow> isl (authenticateGcloudSDK env p)
      | SetProject p \<Rightarrow> isl (setProject env p)
      | _ \<Rightarrow> False)"

text \<open>The entitlement check was answered with status 403.\<close>

definition rejected :: "env \<Rightarrow> bool" where
  "rejected env =
     (case axios_get env (API_URL env) of
        Inl err \<Rightarrow> isAxiosError err \<and> response_status err = Some 403
      | Inr _ \<Rightarrow> False)"

section \<open>Example environments\<close>

definition example_parseBoolean :: "jsstring \<Rightarrow> error + bool" where
  "example_parseBoolean s =
     (if s = js ''true'' then Inr True
      else if s = js ''false'' \<or> s = [] then Inr False
      else Inl (Error (js ''invalid boolean'')))"

definition example_presence :: "jsstring \<Rightarrow> jsstring option" where
  "example_presence s = (if trim s = [] then None else Some (trim s))"

definition example_errorMessage :: "error \<Rightarrow> jsstring" where
  "example_errorMessage err = (case err of Error m \<Rightarrow> m | AxiosError st \<Rightarrow> js ''request failed'')"

definition inputs_of :: "(string \<times> string) list \<Rightarrow> jsstring \<Rightarrow> jsstring" where
  "inputs_of kvs name =
     (case map_of (map (\<lambda>(k, v). (js k, js v)) kvs) name of None \<Rightarrow> [] | Some v \<Rightarrow> v)"

text \<open>
  A runner with a cold tool cache, no credentials file, no inputs, and every library
  call succeeding.
\<close>

definition plain_env :: env where
  "plain_env =
     \<lparr>GITHUB_REPOSITORY = Some (js ''octo/repo''),
      GOOGLE_GHA_CREDS_PATH = None,
      appVersion = js ''3.0.1'',
      axios_get = (\<lambda>url. Inr ()),
      getInput = inputs_of [],
      parseBoolean = example_parseBoolean,
      presence = example_presence,
      isPinnedToHead = False,
      pinnedToHeadWarning = (\<lambda>r. js ''pinned to HEAD, use '' @ r),
      errorMessage = example_errorMessage,
      path_join = (\<lambda>a b. a @ js ''/'' @ b),
      bestVersion = (\<lambda>range. Inr (js ''501.0.0'')),
      toolCache_find = (\<lambda>name v. Inr []),
      installGcloudSDK = (\<lambda>v c. Inr ()),
      installComponent = (\<lambda>l. Inr ()),
      authenticateGcloudSDK = (\<lambda>p. Inr ()),
      isAuthenticated = Inr False,
      setProject = (\<lambda>p. Inr ())\<rparr>"

text \<open>The other examples differ from it in the inputs or in the answer of one call.\<close>

definition env_403 :: env where
  "env_403 = plain_env\<lparr>axios_get := (\<lambda>url. Inl (AxiosError (Some 403)))\<rparr>"

definition env_timeout :: env where
  "env_timeout = plain_env\<lparr>axios_get := (\<lambda>url. Inl (AxiosError None))\<rparr>"

definition env_skip_pinned :: env where
  "env_skip_pinned =
     plain_env\<lparr>getInput := inputs_of [(''skip_install'', ''true''), (''version'', ''1.2.3'')]\<rparr>"

definition inp_skip_pinned :: step_inputs where
  "inp_skip_pinned =
     \<lparr>skipInstall = True, version = Some (js ''1.2.3''), components = [], projectId = [],
      cache = False\<rparr>"

definition env_latest :: env where
  "env_latest = plain_env\<lparr>getInput := inputs_of [(''version'', ''latest'')]\<rparr>"

definition inp_latest :: step_inputs where
  "inp_latest =
     \<lparr>skipInstall = False, version = Some (js ''latest''), components = [], projectId = [],
      cache = False\<rparr>"

definition env_latest_unreachable :: env where
  "env_latest_unreachable =
     env_latest\<lparr>bestVersion := (\<lambda>range. Inl (Error (js ''no versions found'')))\<rparr>"

definition inp_plain :: step_inputs where
  "inp_plain =
     \<lparr>skipInstall = False, version = None, components = [], projectId = [], cache = False\<rparr>"

definition env_warm :: env where
  "env_warm =
     plain_env\<lparr>getInput := inputs_of [(''version'', ''4.0.0'')],
               toolCache_find := (\<lambda>name v. if name = js ''gcloud'' \<and> v = js ''4.0.0''
                                          then Inr (js ''/opt/hostedtoolcache/gcloud/4.0.0/x64'')
                                          else Inr [])\<rparr>"

definition inp_warm :: step_inputs where
  "inp_warm =
     \<lparr>skipInstall = False, version = Some (js ''4.0.0''), components = [], projectId = [],
      cache = False\<rparr>"

definition env_cold :: env where
  "env_cold = plain_env\<lparr>getInput := inputs_of [(''version'', ''4.0.0''), (''cache'', ''true'')]\<rparr>"

definition inp_cold :: step_inputs where
  "inp_cold =
     \<lparr>skipInstall = False, version = Some (js ''4.0.0''), components = [], projectId = [],
      cache = True\<rparr>"

definition env_skip_latest :: env where
  "env_skip_latest =
     plain_env\<lparr>getInput := inputs_of [(''skip_install'', ''true''), (''version'', ''latest'')]\<rparr>"

definition inp_skip_latest :: step_inputs where
  "inp_skip_latest =
     \<lparr>skipInstall = True, version = Some (js ''latest''), components = [], projectId = [],
      cache = False\<rparr>"

definition env_credentials :: env where
  "env_credentials =
     plain_env\<lparr>GOOGLE_GHA_CREDS_PATH := Some (js ''/tmp/gha-creds.json''),
               authenticateGcloudSDK := (\<lambda>p. Inl (Error (js ''invalid credentials'')))\<rparr>"

definition env_check_raises :: env where
  "env_check_raises = plain_env\<lparr>isAuthenticated := Inl (Error (js ''gcloud not found''))\<rparr>"

definition env_stray_comma :: env where
  "env_stray_comma = plain_env\<lparr>getInput := inputs_of [(''install_components'', ''a,,b'')]\<rparr>"

definition env_components :: env where
  "env_components = plain_env\<lparr>getInput := inputs_of [(''install_components'', '' a, b ,c'')]\<rparr>"

definition inp_components :: step_inputs where
  "inp_components =
     \<lparr>skipInstall = False, version = None, components = js '' a, b ,c'', projectId = [],
      cache = False\<rparr>"

definition env_install_fails :: env where
  "env_install_fails =
     plain_env\<lparr>installGcloudSDK := (\<lambda>v c. Inl (Error (js ''download failed'')))\<rparr>"

section \<open>Basic facts\<close>

subsection \<open>Strings\<close>

lemma of_char_lt_256: "(of_char c :: nat) < 256"
proof -
  have "(of_char c :: nat) = of_char c mod 256" by simp
  also have "\<dots> < 256" by (rule mod_less_divisor) simp
  finally show ?thesis .
qed

lemma inj_code_unit: "inj (\<lambda>c::char. (of_nat (of_char c) :: jschar))"
proof (rule injI)
  fix x y :: char
  assume h: "(of_nat (of_char x) :: jschar) = of_nat (of_char y)"
  have le: "(256::nat) \<le> 2 ^ LENGTH(16)"
    by simp
  have bx: "(of_char x :: nat) < 2 ^ LENGTH(16)"
    by (rule less_le_trans[OF of_char_lt_256 le])
  have by': "(of_char y :: nat) < 2 ^ LENGTH(16)"
    by (rule less_le_trans[OF of_char_lt_256 le])
  from h have "unat (of_nat (of_char x) :: jschar) = unat (of_nat (of_char y) :: jschar)"
    by (rule arg_cong)
  then have "(of_char x :: nat) mod 2 ^ LENGTH(16) = of_char y mod 2 ^ LENGTH(16)"
    by (simp only: unat_of_nat)
  then have "(of_char x :: nat) = of_char y"
    by (simp only: mod_less[OF bx] mod_less[OF by'])
  then show "x = y"
    by (simp only: of_char_eq_iff)
qed

lemma js_eq_iff [simp]: "(js a = js b) = (a = b)"
  unfolding js_def by (rule inj_map_eq_map[OF inj_code_unit])

lemma js_eq_Nil [simp]: "(js a = []) = (a = [])" "([] = js a) = (a = [])"
  unfolding js_def by simp_all

lemma js_append: "js a @ js b = js (a @ b)"
  unfolding js_def by simp

subsection \<open>Sequencing\<close>

lemma fst_andThen:
  "fst (andThen m f) = fst m @ (case snd m of Done x \<Rightarrow> fst (f x) | Throw err \<Rightarrow> [] | Exit n \<Rightarrow> [])"
  by (simp add: andThen_def split: outcome.splits)

lemma snd_andThen:
  "snd (andThen m f) =
     (case snd m of Done x \<Rightarrow> snd (f x) | Throw err \<Rightarrow> Throw err | Exit n \<Rightarrow> Exit n)"
  by (simp add: andThen_def split: outcome.splits)

lemma fst_try_catch:
  "fst (try_catch m h) = fst m @ (case snd m of Done x \<Rightarrow> [] | Throw err \<Rightarrow> fst (h err) | Exit n \<Rightarrow> [])"
  by (simp add: try_catch_def split: outcome.splits)

lemma snd_try_catch:
  "snd (try_catch m h) =
     (case snd m of Done x \<Rightarrow> Done x | Throw err \<Rightarrow> snd (h err) | Exit n \<Rightarrow> Exit n)"
  by (simp add: try_catch_def split: outcome.splits)

lemmas seq_simps = fst_andThen snd_andThen fst_try_catch snd_try_catch
  ret_def emit_def lift_def call_def exit_def core_getInput_def

subsection \<open>Observations distribute over the events\<close>

lemma installs_simps [simp]:
  "installs [] = []"
  "installs (e # t) = (case e of InstallGcloudSDK v c \<Rightarrow> [(v, c)] | _ \<Rightarrow> []) @ installs t"
  "installs (t @ u) = installs t @ installs u"
  by (simp_all add: installs_def split: event.splits)

lemma finds_simps [simp]:
  "finds [] = []"
  "finds (e # t) = (case e of ToolCacheFind n v \<Rightarrow> [(n, v)] | _ \<Rightarrow> []) @ finds t"
  "finds (t @ u) = finds t @ finds u"
  by (simp_all add: finds_def split: event.splits)

lemma resolutions_simps [simp]:
  "resolutions [] = []"
  "resolutions (e # t) = (case e of BestVersion a \<Rightarrow> [a] | _ \<Rightarrow> []) @ resolutions t"
  "resolutions (t @ u) = resolutions t @ resolutions u"
  by (simp_all add: resolutions_def split: event.splits)

lemma addpaths_simps [simp]:
  "addpaths [] = []"
  "addpaths (e # t) = (case e of AddPath p \<Rightarrow> [p] | _ \<Rightarrow> []) @ addpaths t"
  "addpaths (t @ u) = addpaths t @ addpaths u"
  by (simp_all add: addpaths_def split: event.splits)

lemma component_installs_simps [simp]:
  "component_installs [] = []"
  "component_installs (e # t) = (case e of InstallComponent l \<Rightarrow> [l] | _ \<Rightarrow> []) @ component_installs t"
  "component_installs (t @ u) = component_installs t @ component_installs u"
  by (simp_all add: component_installs_def split: event.splits)

lemma authentications_simps [simp]:
  "authentications [] = []"
  "authentications (e # t) = (case e of AuthenticateGcloudSDK p \<Rightarrow> [p] | _ \<Rightarrow> []) @ authentications t"
  "authentications (t @ u) = authentications t @ authentications u"
  by (simp_all add: authentications_def split: event.splits)

lemma status_checks_simps [simp]:
  "status_checks [] = []"
  "status_checks (e # t) = (case e of IsAuthenticated \<Rightarrow> [()] | _ \<Rightarrow> []) @ status_checks t"
  "status_checks (t @ u) = status_checks t @ status_checks u"
  by (simp_all add: status_checks_def split: event.splits)

lemma project_settings_simps [simp]:
  "project_settings [] = []"
  "project_settings (e # t) = (case e of SetProject p \<Rightarrow> [p] | _ \<Rightarrow> []) @ project_settings t"
  "project_settings (t @ u) = project_settings t @ project_settings u"
  by (simp_all add: project_settings_def split: event.splits)

lemma outputs_simps [simp]:
  "outputs [] = []"
  "outputs (e # t) = (case e of SetOutput k v \<Rightarrow> [(k, v)] | _ \<Rightarrow> []) @ outputs t"
  "outputs (t @ u) = outputs t @ outputs u"
  by (simp_all add: outputs_def split: event.splits)

lemma failures_simps [simp]:
  "failures [] = []"
  "failures (e # t) = (case e of SetFailed m \<Rightarrow> [m] | _ \<Rightarrow> []) @ failures t"
  "failures (t @ u) = failures t @ failures u"
  by (simp_all add: failures_def split: event.splits)

lemma warnings_simps [simp]:
  "warnings [] = []"
  "warnings (e # t) = (case e of CoreWarning m \<Rightarrow> [m] | _ \<Rightarrow> []) @ warnings t"
  "warnings (t @ u) = warnings t @ warnings u"
  by (simp_all add: warnings_def split: event.splits)

lemma exports_simps [simp]:
  "exports [] = []"
  "exports (e # t) = (case e of ExportVariable k v \<Rightarrow> [(k, v)] | _ \<Rightarrow> []) @ exports t"
  "exports (t @ u) = exports t @ exports u"
  by (simp_all add: exports_def split: event.splits)

lemma process_env_writes_simps [simp]:
  "process_env_writes [] = []"
  "process_env_writes (e # t) = (case e of SetProcessEnv k v \<Rightarrow> [(k, v)] | _ \<Rightarrow> []) @ process_env_writes t"
  "process_env_writes (t @ u) = process_env_writes t @ process_env_writes u"
  by (simp_all add: process_env_writes_def split: event.splits)

lemma inputs_read_simps [simp]:
  "inputs_read [] = []"
  "inputs_read (e # t) = (case e of GetInput n \<Rightarrow> [n] | _ \<Rightarrow> []) @ inputs_read t"
  "inputs_read (t @ u) = inputs_read t @ inputs_read u"
  by (simp_all add: inputs_read_def split: event.splits)

subsection \<open>What each step leaves untouched\<close>

lemma preflight_quiet [simp]:
  "installs (fst (preflight env)) = []"
  "finds (fst (preflight env)) = []"
  "resolutions (fst (preflight env)) = []"
  "addpaths (fst (preflight env)) = []"
  "component_installs (fst (preflight env)) = []"
  "authentications (fst (preflight env)) = []"
  "status_checks (fst (preflight env)) = []"
  "project_settings (fst (preflight env)) = []"
  "outputs (fst (preflight env)) = []"
  "failures (fst (preflight env)) = []"
  "inputs_read (fst (preflight env)) = []"
  by (simp_all add: preflight_def validateSubscription_def seq_simps split: sum.splits option.splits)

lemma read_inputs_quiet [simp]:
  "installs (fst (read_inputs env)) = []"
  "finds (fst (read_inputs env)) = []"
  "resolutions (fst (read_inputs env)) = []"
  "addpaths (fst (read_inputs env)) = []"
  "component_installs (fst (read_inputs env)) = []"
  "authentications (fst (read_inputs env)) = []"
  "status_checks (fst (read_inputs env)) = []"
  "project_settings (fst (read_inputs env)) = []"
  "outputs (fst (read_inputs env)) = []"
  "failures (fst (read_inputs env)) = []"
  "warnings (fst (read_inputs env)) = []"
  "exports (fst (read_inputs env)) = []"
  "process_env_writes (fst (read_inputs env)) = []"
  by (simp_all add: read_inputs_def seq_simps split: sum.splits option.splits)

lemma skip_installation_quiet [simp]:
  "installs (fst (skip_installation inp)) = []"
  "finds (fst (skip_installation inp)) = []"
  "resolutions (fst (skip_installation inp)) = []"
  "addpaths (fst (skip_installation inp)) = []"
  "component_installs (fst (skip_installation inp)) = []"
  "authentications (fst (skip_installation inp)) = []"
  "status_checks (fst (skip_installation inp)) = []"
  "project_settings (fst (skip_installation inp)) = []"
  "outputs (fst (skip_installation inp)) = []"
  "failures (fst (skip_installation inp)) = []"
  "exports (fst (skip_installation inp)) = []"
  "process_env_writes (fst (skip_installation inp)) = []"
  "inputs_read (fst (skip_installation inp)) = []"
  by (simp_all add: skip_installation_def seq_simps split: sum.splits option.splits)

lemma resolve_version_quiet [simp]:
  "installs (fst (resolve_version env v0)) = []"
  "finds (fst (resolve_version env v0)) = []"
  "addpaths (fst (resolve_version env v0)) = []"
  "component_installs (fst (resolve_version env v0)) = []"
  "authentications (fst (resolve_version env v0)) = []"
  "status_checks (fst (resolve_version env v0)) = []"
  "project_settings (fst (resolve_version env v0)) = []"
  "outputs (fst (resolve_version env v0)) = []"
  "failures (fst (resolve_version env v0)) = []"
  "warnings (fst (resolve_version env v0)) = []"
  "exports (fst (resolve_version env v0)) = []"
  "process_env_writes (fst (resolve_version env v0)) = []"
  "inputs_read (fst (resolve_version env v0)) = []"
  by (simp_all add: resolve_version_def seq_simps split: sum.splits option.splits)

lemma find_or_install_quiet [simp]:
  "resolutions (fst (find_or_install env v1 c1)) = []"
  "component_installs (fst (find_or_install env v1 c1)) = []"
  "authentications (fst (find_or_install env v1 c1)) = []"
  "status_checks (fst (find_or_install env v1 c1)) = []"
  "project_settings (fst (find_or_install env v1 c1)) = []"
  "outputs (fst (find_or_install env v1 c1)) = []"
  "failures (fst (find_or_install env v1 c1)) = []"
  "warnings (fst (find_or_install env v1 c1)) = []"
  "exports (fst (find_or_install env v1 c1)) = []"
  "process_env_writes (fst (find_or_install env v1 c1)) = []"
  "inputs_read (fst (find_or_install env v1 c1)) = []"
  by (simp_all add: find_or_install_def seq_simps split: sum.splits option.splits)

lemma install_components_quiet [simp]:
  "installs (fst (install_components env cs)) = []"
  "finds (fst (install_components env cs)) = []"
  "resolutions (fst (install_components env cs)) = []"
  "addpaths (fst (install_components env cs)) = []"
  "authentications (fst (install_components env cs)) = []"
  "status_checks (fst (install_components env cs)) = []"
  "project_settings (fst (install_components env cs)) = []"
  "outputs (fst (install_components env cs)) = []"
  "failures (fst (install_components env cs)) = []"
  "warnings (fst (install_components env cs)) = []"
  "exports (fst (install_components env cs)) = []"
  "process_env_writes (fst (install_components env cs)) = []"
  "inputs_read (fst (install_components env cs)) = []"
  by (simp_all add: install_components_def seq_simps split: sum.splits option.splits)

lemma authenticate_quiet [simp]:
  "installs (fst (authenticate env)) = []"
  "finds (fst (authenticate env)) = []"
  "resolutions (fst (authenticate env)) = []"
  "addpaths (fst (authenticate env)) = []"
  "component_installs (fst (authenticate env)) = []"
  "project_settings (fst (authenticate env)) = []"
  "outputs (fst (authenticate env)) = []"
  "failures (fst (authenticate env)) = []"
  "exports (fst (authenticate env)) = []"
  "process_env_writes (fst (authenticate env)) = []"
  "inputs_read (fst (authenticate env)) = []"
  by (simp_all add: authenticate_def seq_simps split: sum.splits option.splits)

lemma set_project_quiet [simp]:
  "installs (fst (set_project env pid)) = []"
  "finds (fst (set_project env pid)) = []"
  "resolutions (fst (set_project env pid)) = []"
  "addpaths (fst (set_project env pid)) = []"
  "component_installs (fst (set_project env pid)) = []"
  "authentications (fst (set_project env pid)) = []"
  "status_checks (fst (set_project env pid)) = []"
  "outputs (fst (set_project env pid)) = []"
  "failures (fst (set_project env pid)) = []"
  "warnings (fst (set_project env pid)) = []"
  "exports (fst (set_project env pid)) = []"
  "process_env_writes (fst (set_project env pid)) = []"
  "inputs_read (fst (set_project env pid)) = []"
  by (simp_all add: set_project_def seq_simps split: sum.splits option.splits)

subsection \<open>Outcomes of the steps\<close>

lemma validateSubscription_cases:
  "validateSubscription env =
     (case axios_get env (API_URL env) of
        Inr u \<Rightarrow> ([AxiosGet (API_URL env) 3000], Done ())
      | Inl err \<Rightarrow>
          if err = AxiosError (Some 403)
          then ([AxiosGet (API_URL env) 3000, CoreError subscription_invalid], Exit 1)
          else ([AxiosGet (API_URL env) 3000, CoreInfo api_not_reachable], Done ()))"
proof (cases "axios_get env (API_URL env)")
  case (Inl err)
  then show ?thesis
    by (cases err) (simp_all add: validateSubscription_def try_catch_def andThen_def seq_simps)
next
  case (Inr u)
  then show ?thesis
    by (simp add: validateSubscription_def try_catch_def seq_simps)
qed

lemma rejected_iff: "rejected env = (axios_get env (API_URL env) = Inl (AxiosError (Some 403)))"
proof (cases "axios_get env (API_URL env)")
  case (Inl err)
  then show ?thesis by (cases err) (simp_all add: rejected_def)
next
  case (Inr u)
  then show ?thesis by (simp add: rejected_def)
qed

lemma validateSubscription_outcome:
  "snd (validateSubscription env) = (if rejected env then Exit 1 else Done ())"
  by (simp add: validateSubscription_cases rejected_iff split: sum.splits)

lemma preflight_outcome: "snd (preflight env) = (if rejected env then Exit 1 else Done ())"
  by (simp add: preflight_def snd_andThen validateSubscription_outcome emit_def ret_def)

lemma preflight_rejected:
  "rejected env \<Longrightarrow>
   preflight env = ([AxiosGet (API_URL env) 3000, CoreError subscription_invalid], Exit 1)"
  by (simp add: preflight_def andThen_def validateSubscription_cases rejected_iff)

lemma preflight_trace:
  "\<not> rejected env \<Longrightarrow>
   fst (preflight env) =
     fst (validateSubscription env)
     @ [ExportVariable (js ''CLOUDSDK_METRICS_ENVIRONMENT'') (js ''github-actions-setup-gcloud''),
        ExportVariable (js ''CLOUDSDK_METRICS_ENVIRONMENT_VERSION'') (appVersion env),
        SetProcessEnv (js ''CLOUDSDK_CORE_DISABLE_PROMPTS'') (js ''1'')]
     @ (if isPinnedToHead env then [CoreWarning (pinnedToHeadWarning env (js ''v3''))] else [])"
  by (simp add: preflight_def fst_andThen snd_andThen validateSubscription_outcome emit_def ret_def)

lemma read_inputs_outcome:
  "snd (read_inputs env) =
     (case parseBoolean env (getInput env (js ''skip_install'')) of
        Inl err \<Rightarrow> Throw err
      | Inr s \<Rightarrow>
          (case parseBoolean env (getInput env (js ''cache'')) of
             Inl err \<Rightarrow> Throw err
           | Inr c \<Rightarrow>
               Done \<lparr>skipInstall = s,
                     version = presence env (getInput env (js ''version'')),
                     components = getInput env (js ''install_components''),
                     projectId = getInput env (js ''project_id''),
                     cache = c\<rparr>))"
  by (simp add: read_inputs_def seq_simps split: sum.splits)

lemma read_inputs_trace:
  "fst (read_inputs env) =
     (case parseBoolean env (getInput env (js ''skip_install'')) of
        Inl err \<Rightarrow> [GetInput (js ''skip_install'')]
      | Inr s \<Rightarrow>
          [GetInput (js ''skip_install''), GetInput (js ''version''),
           GetInput (js ''install_components''), GetInput (js ''project_id''),
           GetInput (js ''cache'')])"
  by (simp add: read_inputs_def seq_simps split: sum.splits)

lemma skip_installation_outcome [simp]: "snd (skip_installation inp) = Done (version inp)"
  by (simp add: skip_installation_def seq_simps)

lemma no_exit [simp]:
  "snd (read_inputs env) \<noteq> Exit n"
  "snd (resolve_version env v0) \<noteq> Exit n"
  "snd (find_or_install env v1 c1) \<noteq> Exit n"
  "snd (install_components env cs) \<noteq> Exit n"
  "snd (authenticate env) \<noteq> Exit n"
  "snd (set_project env pid) \<noteq> Exit n"
  by (simp_all add: read_inputs_outcome resolve_version_def find_or_install_def
      install_components_def authenticate_def set_project_def seq_simps
      split: sum.splits option.splits)

lemma install_or_skip_no_exit [simp]: "snd (install_or_skip env inp) \<noteq> Exit n"
  by (simp add: install_or_skip_def seq_simps split: outcome.splits)

lemma install_or_skip_quiet [simp]:
  "component_installs (fst (install_or_skip env inp)) = []"
  "authentications (fst (install_or_skip env inp)) = []"
  "status_checks (fst (install_or_skip env inp)) = []"
  "project_settings (fst (install_or_skip env inp)) = []"
  "outputs (fst (install_or_skip env inp)) = []"
  "failures (fst (install_or_skip env inp)) = []"
  "exports (fst (install_or_skip env inp)) = []"
  "process_env_writes (fst (install_or_skip env inp)) = []"
  "inputs_read (fst (install_or_skip env inp)) = []"
  by (simp_all add: install_or_skip_def fst_andThen ret_def split: outcome.splits)

subsection \<open>The events of a run, step by step\<close>

lemma run_steps_trace:
  "fst (run_steps env inp) =
     fst (install_or_skip env inp)
     @ (case snd (install_or_skip env inp) of
          Done v \<Rightarrow>
            fst (install_components env (components inp))
            @ (case snd (install_components env (components inp)) of
                 Done u1 \<Rightarrow>
                   fst (authenticate env)
                   @ (case snd (authenticate env) of
                        Done u2 \<Rightarrow>
                          fst (set_project env (projectId inp))
                          @ (case snd (set_project env (projectId inp)) of
                               Done u3 \<Rightarrow> [SetOutput (js ''version'') v]
                             | Throw err \<Rightarrow> [] | Exit n \<Rightarrow> [])
                      | Throw err \<Rightarrow> [] | Exit n \<Rightarrow> [])
               | Throw err \<Rightarrow> [] | Exit n \<Rightarrow> [])
        | Throw err \<Rightarrow> [] | Exit n \<Rightarrow> [])"
  by (simp add: run_steps_def fst_andThen emit_def split: outcome.splits)

lemma run_steps_outcome:
  "snd (run_steps env inp) =
     (case snd (install_or_skip env inp) of
        Done v \<Rightarrow>
          (case snd (install_components env (components inp)) of
             Done u1 \<Rightarrow>
               (case snd (authenticate env) of
                  Done u2 \<Rightarrow>
                    (case snd (set_project env (projectId inp)) of
                       Done u3 \<Rightarrow> Done ()
                     | Throw err \<Rightarrow> Throw err | Exit n \<Rightarrow> Exit n)
                | Throw err \<Rightarrow> Throw err | Exit n \<Rightarrow> Exit n)
           | Throw err \<Rightarrow> Throw err | Exit n \<Rightarrow> Exit n)
      | Throw err \<Rightarrow> Throw err | Exit n \<Rightarrow> Exit n)"
  by (simp add: run_steps_def snd_andThen emit_def split: outcome.splits)

lemma run_steps_no_exit [simp]: "snd (run_steps env inp) \<noteq> Exit n"
  by (simp add: run_steps_outcome split: outcome.splits)

lemma run_body_trace:
  "fst (run_body env) =
     fst (read_inputs env)
     @ (case snd (read_inputs env) of
          Done inp \<Rightarrow> fst (run_steps env inp) | Throw err \<Rightarrow> [] | Exit n \<Rightarrow> [])"
  by (simp add: run_body_def fst_andThen)

lemma run_body_outcome:
  "snd (run_body env) =
     (case snd (read_inputs env) of
        Done inp \<Rightarrow> snd (run_steps env inp) | Throw err \<Rightarrow> Throw err | Exit n \<Rightarrow> Exit n)"
  by (simp add: run_body_def snd_andThen)

lemma run_body_no_exit [simp]: "snd (run_body env) \<noteq> Exit n"
  by (simp add: run_body_outcome split: outcome.splits)

lemma run_main_trace:
  "fst (run_main env) =
     fst (run_body env)
     @ (case snd (run_body env) of
          Done u \<Rightarrow> []
        | Throw err \<Rightarrow> [SetFailed (failed_with @ errorMessage env err)]
        | Exit n \<Rightarrow> [])"
  by (simp add: run_main_def fst_try_catch emit_def split: outcome.splits)

lemma run_main_outcome [simp]: "snd (run_main env) = Done ()"
  by (simp add: run_main_def snd_try_catch emit_def split: outcome.splits)

lemma run_rejected:
  "rejected env \<Longrightarrow>
   run env = ([AxiosGet (API_URL env) 3000, CoreError subscription_invalid], Exit 1)"
  by (simp add: run_def preflight_rejected andThen_def)

lemma run_trace:
  "\<not> rejected env \<Longrightarrow> fst (run env) = fst (preflight env) @ fst (run_main env)"
  by (simp add: run_def fst_andThen preflight_outcome)

lemma run_outcome: "snd (run env) = (if rejected env then Exit 1 else Done ())"
  by (simp add: run_def snd_andThen preflight_outcome)

lemma run_main_no_exports [simp]:
  "exports (fst (run_main env)) = []"
  "process_env_writes (fst (run_main env)) = []"
  by (simp_all add: run_main_trace run_body_trace run_steps_trace split: outcome.splits)

lemma run_main_first_input:
  "take 1 (inputs_read (fst (run_main env))) = [js ''skip_install'']"
  by (simp add: run_main_trace run_body_trace read_inputs_trace split: sum.splits)

section \<open>The entitlement check\<close>

text \<open>
  Claim C6. The entitlement check is the first thing a run does, before any input is
  read. When the validation endpoint answers 403, the run consists of the request and one
  logged error, and the process exits with status 1: no input is read, no failure message
  is composed, nothing follows. When the request fails in any other way (a timeout, no
  response, another status, another error), the failure is logged with \<open>core.info\<close>,
  the run goes on to read its inputs, and \<open>run\<close> returns.
\<close>

theorem entitlement_check:
  "take 1 (fst (run env)) = [AxiosGet (API_URL env) 3000]
   \<and> (axios_get env (API_URL env) = Inl (AxiosError (Some 403)) \<longrightarrow>
        run env = ([AxiosGet (API_URL env) 3000, CoreError subscription_invalid], Exit 1))
   \<and> (\<forall>err. axios_get env (API_URL env) = Inl err \<and> err \<noteq> AxiosError (Some 403) \<longrightarrow>
        take 2 (fst (run env)) = [AxiosGet (API_URL env) 3000, CoreInfo api_not_reachable]
        \<and> snd (run env) = Done ()
        \<and> take 1 (inputs_read (fst (run env))) = [js ''skip_install''])"
proof (intro conjI allI impI)
  show "take 1 (fst (run env)) = [AxiosGet (API_URL env) 3000]"
  proof (cases "rejected env")
    case True
    then show ?thesis by (simp add: run_rejected)
  next
    case False
    then show ?thesis
      by (simp add: run_trace preflight_trace validateSubscription_cases split: sum.splits)
  qed
next
  assume "axios_get env (API_URL env) = Inl (AxiosError (Some 403))"
  then have "rejected env" by (simp add: rejected_iff)
  then show "run env = ([AxiosGet (API_URL env) 3000, CoreError subscription_invalid], Exit 1)"
    by (rule run_rejected)
next
  fix err
  assume h: "axios_get env (API_URL env) = Inl err \<and> err \<noteq> AxiosError (Some 403)"
  then have nr: "\<not> rejected env" by (simp add: rejected_iff)
  show "take 2 (fst (run env)) = [AxiosGet (API_URL env) 3000, CoreInfo api_not_reachable]"
    using h nr by (simp add: run_trace preflight_trace validateSubscription_cases)
  show "snd (run env) = Done ()"
    using nr by (simp add: run_outcome)
  have "inputs_read (fst (preflight env)) = []" by simp
  then show "take 1 (inputs_read (fst (run env))) = [js ''skip_install'']"
    using nr run_main_first_input[of env] by (simp add: run_trace)
qed

theorem entitlement_check_witness:
  "run env_403 = ([AxiosGet (API_URL env_403) 3000, CoreError subscription_invalid], Exit 1)
   \<and> take 2 (fst (run env_timeout)) = [AxiosGet (API_URL env_timeout) 3000, CoreInfo api_not_reachable]
   \<and> snd (run env_timeout) = Done ()
   \<and> take 1 (inputs_read (fst (run env_timeout))) = [js ''skip_install'']"
  using entitlement_check[of env_403] entitlement_check[of env_timeout]
  by (simp add: env_403_def env_timeout_def)

section \<open>Observations on a whole run\<close>

lemma run_exports:
  "\<not> rejected env \<Longrightarrow>
   exports (fst (run env)) =
     [(js ''CLOUDSDK_METRICS_ENVIRONMENT'', js ''github-actions-setup-gcloud''),
      (js ''CLOUDSDK_METRICS_ENVIRONMENT_VERSION'', appVersion env)]"
  by (simp add: run_trace preflight_trace validateSubscription_cases split: sum.splits)

lemma run_process_env_writes:
  "\<not> rejected env \<Longrightarrow>
   process_env_writes (fst (run env)) = [(js ''CLOUDSDK_CORE_DISABLE_PROMPTS'', js ''1'')]"
  by (simp add: run_trace preflight_trace validateSubscription_cases split: sum.splits)

lemma run_provisioning:
  assumes "\<not> rejected env" and "snd (read_inputs env) = Done inp"
  shows "installs (fst (run env)) = installs (fst (install_or_skip env inp))"
    and "finds (fst (run env)) = finds (fst (install_or_skip env inp))"
    and "resolutions (fst (run env)) = resolutions (fst (install_or_skip env inp))"
    and "addpaths (fst (run env)) = addpaths (fst (install_or_skip env inp))"
  using assms
  by (simp_all add: run_trace run_main_trace run_body_trace run_steps_trace split: outcome.splits)

lemma run_failures:
  assumes "\<not> rejected env" and "snd (read_inputs env) = Done inp"
  shows "failures (fst (run env)) =
           (case snd (run_steps env inp) of
              Done u \<Rightarrow> []
            | Throw err \<Rightarrow> [failed_with @ errorMessage env err]
            | Exit n \<Rightarrow> [])"
  using assms
  by (simp add: run_trace run_main_trace run_body_trace run_body_outcome run_steps_trace
      split: outcome.splits)

lemma run_outputs:
  assumes "\<not> rejected env" and "snd (read_inputs env) = Done inp"
  shows "outputs (fst (run env)) =
           (case snd (install_or_skip env inp) of
              Done v \<Rightarrow> if snd (run_steps env inp) = Done () then [(js ''version'', v)] else []
            | Throw err \<Rightarrow> []
            | Exit n \<Rightarrow> [])"
  using assms
  by (simp add: run_trace run_main_trace run_body_trace run_body_outcome run_steps_trace
      run_steps_outcome split: outcome.splits)

lemma install_or_skip_skip:
  "skipInstall inp \<Longrightarrow> install_or_skip env inp = skip_installation inp"
  by (simp add: install_or_skip_def)

section \<open>Environment variables\<close>

text \<open>
  Claim C3, as stated, fails: \<open>CLOUDSDK_CORE_DISABLE_PROMPTS\<close> is not published with
  \<open>core.exportVariable\<close>. In the example run, which the entitlement check lets pass,
  no exported variable has that name.
\<close>

theorem disable_prompts_not_exported:
  "\<not> rejected plain_env
   \<and> js ''CLOUDSDK_CORE_DISABLE_PROMPTS'' \<notin> set (map fst (exports (fst (run plain_env))))"
proof -
  have nr: "\<not> rejected plain_env"
    by (simp add: rejected_def plain_env_def)
  show ?thesis
    using nr run_exports[OF nr] by simp
qed

text \<open>
  Claim C3, amended. In every run that the entitlement check lets pass, the first three
  actions after the check set the three variables: \<open>CLOUDSDK_METRICS_ENVIRONMENT\<close> and
  \<open>CLOUDSDK_METRICS_ENVIRONMENT_VERSION\<close> are published with \<open>core.exportVariable\<close>
  (the persistent export, and these two are all the run exports), while
  \<open>CLOUDSDK_CORE_DISABLE_PROMPTS\<close> is assigned in \<open>process.env\<close> of the running
  process (the only such assignment of the run).
\<close>

theorem environment_variables:
  assumes "\<not> rejected env"
  shows "exports (fst (run env)) =
           [(js ''CLOUDSDK_METRICS_ENVIRONMENT'', js ''github-actions-setup-gcloud''),
            (js ''CLOUDSDK_METRICS_ENVIRONMENT_VERSION'', appVersion env)]
         \<and> process_env_writes (fst (run env)) = [(js ''CLOUDSDK_CORE_DISABLE_PROMPTS'', js ''1'')]
         \<and> (\<exists>rest. fst (run env) =
                fst (validateSubscription env)
                @ [ExportVariable (js ''CLOUDSDK_METRICS_ENVIRONMENT'') (js ''github-actions-setup-gcloud''),
                   ExportVariable (js ''CLOUDSDK_METRICS_ENVIRONMENT_VERSION'') (appVersion env),
                   SetProcessEnv (js ''CLOUDSDK_CORE_DISABLE_PROMPTS'') (js ''1'')]
                @ rest)"
proof (intro conjI)
  show "exports (fst (run env)) =
           [(js ''CLOUDSDK_METRICS_ENVIRONMENT'', js ''github-actions-setup-gcloud''),
            (js ''CLOUDSDK_METRICS_ENVIRONMENT_VERSION'', appVersion env)]"
    using assms by (rule run_exports)
  show "process_env_writes (fst (run env)) = [(js ''CLOUDSDK_CORE_DISABLE_PROMPTS'', js ''1'')]"
    using assms by (rule run_process_env_writes)
  show "\<exists>rest. fst (run env) =
                fst (validateSubscription env)
                @ [ExportVariable (js ''CLOUDSDK_METRICS_ENVIRONMENT'') (js ''github-actions-setup-gcloud''),
                   ExportVariable (js ''CLOUDSDK_METRICS_ENVIRONMENT_VERSION'') (appVersion env),
                   SetProcessEnv (js ''CLOUDSDK_CORE_DISABLE_PROMPTS'') (js ''1'')]
                @ rest"
    using assms by (simp add: run_trace preflight_trace)
qed

theorem environment_variables_witness:
  "exports (fst (run plain_env)) =
     [(js ''CLOUDSDK_METRICS_ENVIRONMENT'', js ''github-actions-setup-gcloud''),
      (js ''CLOUDSDK_METRICS_ENVIRONMENT_VERSION'', js ''3.0.1'')]
   \<and> process_env_writes (fst (run plain_env)) = [(js ''CLOUDSDK_CORE_DISABLE_PROMPTS'', js ''1'')]"
proof -
  have nr: "\<not> rejected plain_env"
    by (simp add: rejected_def plain_env_def)
  have "appVersion plain_env = js ''3.0.1''"
    by (simp add: plain_env_def)
  then show ?thesis
    using environment_variables[OF nr] by simp
qed

section \<open>Skipping the installation\<close>

text \<open>
  Claim C1, as stated, fails: with \<open>skip_install\<close> true and \<open>version\<close> 1.2.3 the run
  ends by reporting 1.2.3 as the step output \<open>version\<close>.
\<close>

theorem skip_install_reports_version:
  "snd (read_inputs env_skip_pinned) = Done inp_skip_pinned
   \<and> skipInstall inp_skip_pinned
   \<and> outputs (fst (run env_skip_pinned)) = [(js ''version'', Some (js ''1.2.3''))]"
  by code_simp

text \<open>
  Claim C1, amended. In every run that reads its inputs with \<open>skip_install\<close> true,
  neither \<open>bestVersion\<close> nor \<open>toolCache.find\<close> nor \<open>installGcloudSDK\<close> is called.
  When the run does not fail, its step output \<open>version\<close> is the \<open>version\<close> input as
  it was read (absent only when that input is absent), so a pinned version such as 1.2.3
  is reported; when the run fails, no output is set.
\<close>

theorem skip_install:
  assumes "\<not> rejected env" and "snd (read_inputs env) = Done inp" and "skipInstall inp"
  shows "installs (fst (run env)) = []
         \<and> finds (fst (run env)) = []
         \<and> resolutions (fst (run env)) = []
         \<and> version inp = presence env (getInput env (js ''version''))
         \<and> outputs (fst (run env)) =
             (if failures (fst (run env)) = [] then [(js ''version'', version inp)] else [])"
proof -
  have calls: "installs (fst (run env)) = []" "finds (fst (run env)) = []"
    "resolutions (fst (run env)) = []"
    using assms by (simp_all add: run_provisioning install_or_skip_skip)
  have v: "version inp = presence env (getInput env (js ''version''))"
    using assms(2) by (auto simp add: read_inputs_outcome split: sum.splits)
  have out: "outputs (fst (run env)) =
             (if failures (fst (run env)) = [] then [(js ''version'', version inp)] else [])"
    using assms
    by (simp add: run_outputs run_failures install_or_skip_skip split: outcome.splits)
  from calls v out show ?thesis by simp
qed

theorem skip_install_witness:
  "installs (fst (run env_skip_pinned)) = []
   \<and> finds (fst (run env_skip_pinned)) = []
   \<and> resolutions (fst (run env_skip_pinned)) = []
   \<and> outputs (fst (run env_skip_pinned)) = [(js ''version'', Some (js ''1.2.3''))]"
proof -
  have nr: "\<not> rejected env_skip_pinned"
    by (simp add: rejected_def env_skip_pinned_def plain_env_def)
  have ri: "snd (read_inputs env_skip_pinned) = Done inp_skip_pinned"
    by code_simp
  have sk: "skipInstall inp_skip_pinned"
    by (simp add: inp_skip_pinned_def)
  have nf: "failures (fst (run env_skip_pinned)) = []"
    by code_simp
  have "version inp_skip_pinned = Some (js ''1.2.3'')"
    by (simp add: inp_skip_pinned_def)
  then show ?thesis
    using skip_install[OF nr ri sk] nf by simp
qed

section \<open>Resolving the version, probing the cache, installing\<close>

lemma resolve_version_unset:
  "v0 = None \<or> v0 = Some [] \<Longrightarrow>
   resolve_version env v0 =
     ([CoreDebug (js ''version was unset, defaulting to any version'')], Done (js ''> 0.0.0''))"
  by (auto simp add: resolve_version_def andThen_def seq_simps any_version_def latest_def)

lemma resolve_version_latest:
  "resolve_version env (Some (js ''latest'')) =
     (case bestVersion env (js ''> 0.0.0'') of
        Inl err \<Rightarrow>
          ([CoreDebug (js ''resolving latest version''), BestVersion (js ''> 0.0.0'')], Throw err)
      | Inr r \<Rightarrow>
          ([CoreDebug (js ''resolving latest version''), BestVersion (js ''> 0.0.0''),
            CoreDebug (js ''resolved latest version to '' @ r)], Done r))"
  by (simp add: resolve_version_def andThen_def seq_simps any_version_def latest_def
      split: sum.splits)

lemma resolve_version_given:
  "v \<noteq> [] \<Longrightarrow> v \<noteq> js ''latest'' \<Longrightarrow> resolve_version env (Some v) = ([], Done v)"
  by (simp add: resolve_version_def andThen_def seq_simps latest_def)

lemma find_or_install_cases:
  \<open>find_or_install env v c =
     (case toolCache_find env (js ''gcloud'') v of
        Inl err \<Rightarrow> ([ToolCacheFind (js ''gcloud'') v], Throw err)
      | Inr p \<Rightarrow>
          if p \<noteq> []
          then ([ToolCacheFind (js ''gcloud'') v, AddPath (path_join env p (js ''bin''))], Done ())
          else ([ToolCacheFind (js ''gcloud'') v,
                 CoreDebug (js ''no version of gcloud matching "'' @ v @ js ''" is installed''),
                 InstallGcloudSDK v c],
                case installGcloudSDK env v c of Inl err \<Rightarrow> Throw err | Inr u \<Rightarrow> Done ()))\<close>
  by (simp add: find_or_install_def andThen_def seq_simps gcloud_def split: sum.splits)

lemma install_or_skip_install:
  assumes "\<not> skipInstall inp" and "snd (resolve_version env (version inp)) = Done v"
  shows "finds (fst (install_or_skip env inp)) = [(js ''gcloud'', v)]"
    and "installs (fst (install_or_skip env inp)) =
           (if toolCache_find env (js ''gcloud'') v = Inr [] then [(v, cache inp)] else [])"
    and "addpaths (fst (install_or_skip env inp)) =
           (case toolCache_find env (js ''gcloud'') v of
              Inl err \<Rightarrow> []
            | Inr p \<Rightarrow> if p \<noteq> [] then [path_join env p (js ''bin'')] else [])"
    and "resolutions (fst (install_or_skip env inp)) =
           resolutions (fst (resolve_version env (version inp)))"
    and "snd (install_or_skip env inp) =
           (case snd (find_or_install env v (cache inp)) of
              Done u \<Rightarrow> Done (Some v) | Throw err \<Rightarrow> Throw err | Exit n \<Rightarrow> Exit n)"
  using assms
  by (simp_all add: install_or_skip_def fst_andThen snd_andThen ret_def find_or_install_cases
      split: sum.splits outcome.splits)

lemma install_or_skip_unresolved:
  assumes "\<not> skipInstall inp" and "snd (resolve_version env (version inp)) = Throw err"
  shows "finds (fst (install_or_skip env inp)) = []"
    and "installs (fst (install_or_skip env inp)) = []"
    and "addpaths (fst (install_or_skip env inp)) = []"
    and "resolutions (fst (install_or_skip env inp)) =
           resolutions (fst (resolve_version env (version inp)))"
    and "snd (install_or_skip env inp) = Throw err"
  using assms
  by (simp_all add: install_or_skip_def fst_andThen snd_andThen)

section \<open>The version that is probed and installed\<close>

text \<open>
  Claim C8. In every run that reads its inputs with \<open>skip_install\<close> false and no
  \<open>version\<close> (absent, or the empty string, which line 96 treats alike), the latest
  version is not resolved, the tool cache is probed once, for \<open>gcloud\<close> at the
  constraint \<open>> 0.0.0\<close>, and when the probe finds nothing the one call of the installer
  is for \<open>> 0.0.0\<close> too; otherwise the installer is not called.
\<close>

theorem version_absent:
  assumes "\<not> rejected env" and "snd (read_inputs env) = Done inp" and "\<not> skipInstall inp"
    and "version inp = None \<or> version inp = Some []"
  shows "resolutions (fst (run env)) = []
         \<and> finds (fst (run env)) = [(js ''gcloud'', js ''> 0.0.0'')]
         \<and> installs (fst (run env)) =
             (if toolCache_find env (js ''gcloud'') (js ''> 0.0.0'') = Inr []
              then [(js ''> 0.0.0'', cache inp)] else [])"
proof -
  have r: "resolve_version env (version inp) =
             ([CoreDebug (js ''version was unset, defaulting to any version'')], Done (js ''> 0.0.0''))"
    using assms(4) by (rule resolve_version_unset)
  then have d: "snd (resolve_version env (version inp)) = Done (js ''> 0.0.0'')"
    by simp
  show ?thesis
    using assms(1,2) r
    by (simp add: run_provisioning install_or_skip_install[OF assms(3) d])
qed

theorem version_absent_witness:
  "resolutions (fst (run plain_env)) = []
   \<and> finds (fst (run plain_env)) = [(js ''gcloud'', js ''> 0.0.0'')]
   \<and> installs (fst (run plain_env)) = [(js ''> 0.0.0'', False)]"
proof -
  have nr: "\<not> rejected plain_env"
    by (simp add: rejected_def plain_env_def)
  have ri: "snd (read_inputs plain_env) = Done inp_plain"
    by code_simp
  have sk: "\<not> skipInstall inp_plain" and v: "version inp_plain = None \<or> version inp_plain = Some []"
    and c: "cache inp_plain = False"
    by (simp_all add: inp_plain_def)
  have f: "toolCache_find plain_env (js ''gcloud'') (js ''> 0.0.0'') = Inr []"
    by (simp add: plain_env_def)
  show ?thesis
    using version_absent[OF nr ri sk v] f c by simp
qed

text \<open>
  Claim C4. In every run that reads its inputs with \<open>skip_install\<close> false and
  \<open>version\<close> equal to \<open>latest\<close>, \<open>bestVersion\<close> is called exactly once, with
  \<open>> 0.0.0\<close>. When it returns \<open>r\<close>, the one cache probe is for \<open>gcloud\<close> at
  \<open>r\<close>, the installer, called when the probe finds nothing, is called with \<open>r\<close>, and
  the step output of a run that does not fail is \<open>r\<close>: the word \<open>latest\<close> is passed on
  nowhere. When it raises, nothing is probed, installed or reported and the run is marked
  failed.
\<close>

theorem version_latest:
  assumes "\<not> rejected env" and "snd (read_inputs env) = Done inp" and "\<not> skipInstall inp"
    and "version inp = Some (js ''latest'')"
  shows "resolutions (fst (run env)) = [js ''> 0.0.0'']
         \<and> (\<forall>r. bestVersion env (js ''> 0.0.0'') = Inr r \<longrightarrow>
               finds (fst (run env)) = [(js ''gcloud'', r)]
               \<and> installs (fst (run env)) =
                   (if toolCache_find env (js ''gcloud'') r = Inr [] then [(r, cache inp)] else [])
               \<and> outputs (fst (run env)) =
                   (if failures (fst (run env)) = [] then [(js ''version'', Some r)] else []))
         \<and> (\<forall>err. bestVersion env (js ''> 0.0.0'') = Inl err \<longrightarrow>
               finds (fst (run env)) = []
               \<and> installs (fst (run env)) = []
               \<and> outputs (fst (run env)) = []
               \<and> failures (fst (run env)) = [failed_with @ errorMessage env err])"
proof (intro conjI allI impI)
  show "resolutions (fst (run env)) = [js ''> 0.0.0'']"
  proof (cases "bestVersion env (js ''> 0.0.0'')")
    case (Inl err)
    then have "snd (resolve_version env (version inp)) = Throw err"
      by (simp add: assms(4) resolve_version_latest)
    then show ?thesis
      using assms(1,2) Inl
      by (simp add: run_provisioning install_or_skip_unresolved[OF assms(3)] assms(4)
          resolve_version_latest)
  next
    case (Inr r)
    then have "snd (resolve_version env (version inp)) = Done r"
      by (simp add: assms(4) resolve_version_latest)
    then show ?thesis
      using assms(1,2) Inr
      by (simp add: run_provisioning install_or_skip_install[OF assms(3)] assms(4)
          resolve_version_latest)
  qed
next
  fix r
  assume b: "bestVersion env (js ''> 0.0.0'') = Inr r"
  then have d: "snd (resolve_version env (version inp)) = Done r"
    by (simp add: assms(4) resolve_version_latest)
  show "finds (fst (run env)) = [(js ''gcloud'', r)]"
    using assms(1,2) by (simp add: run_provisioning install_or_skip_install[OF assms(3) d])
  show "installs (fst (run env)) =
          (if toolCache_find env (js ''gcloud'') r = Inr [] then [(r, cache inp)] else [])"
    using assms(1,2) by (simp add: run_provisioning install_or_skip_install[OF assms(3) d])
  show "outputs (fst (run env)) =
          (if failures (fst (run env)) = [] then [(js ''version'', Some r)] else [])"
    using assms(1,2)
    by (simp add: run_outputs run_failures install_or_skip_install(5)[OF assms(3) d]
        run_steps_outcome split: outcome.splits)
next
  fix err
  assume b: "bestVersion env (js ''> 0.0.0'') = Inl err"
  then have d: "snd (resolve_version env (version inp)) = Throw err"
    by (simp add: assms(4) resolve_version_latest)
  show "finds (fst (run env)) = []"
    using assms(1,2) by (simp add: run_provisioning install_or_skip_unresolved[OF assms(3) d])
  show "installs (fst (run env)) = []"
    using assms(1,2) by (simp add: run_provisioning install_or_skip_unresolved[OF assms(3) d])
  show "outputs (fst (run env)) = []"
    using assms(1,2) by (simp add: run_outputs install_or_skip_unresolved(5)[OF assms(3) d])
  show "failures (fst (run env)) = [failed_with @ errorMessage env err]"
    using assms(1,2)
    by (simp add: run_failures run_steps_outcome install_or_skip_unresolved(5)[OF assms(3) d])
qed

theorem version_latest_witness:
  "resolutions (fst (run env_latest)) = [js ''> 0.0.0'']
   \<and> finds (fst (run env_latest)) = [(js ''gcloud'', js ''501.0.0'')]
   \<and> installs (fst (run env_latest)) = [(js ''501.0.0'', False)]
   \<and> outputs (fst (run env_latest)) = [(js ''version'', Some (js ''501.0.0''))]
   \<and> resolutions (fst (run env_latest_unreachable)) = [js ''> 0.0.0'']
   \<and> finds (fst (run env_latest_unreachable)) = []
   \<and> installs (fst (run env_latest_unreachable)) = []
   \<and> outputs (fst (run env_latest_unreachable)) = []
   \<and> failures (fst (run env_latest_unreachable))
       = [js ''google-github-actions/setup-gcloud failed with: no versions found'']"
proof -
  have nr: "\<not> rejected env_latest" "\<not> rejected env_latest_unreachable"
    by (simp_all add: rejected_def env_latest_unreachable_def env_latest_def plain_env_def)
  have ri: "snd (read_inputs env_latest) = Done inp_latest"
    "snd (read_inputs env_latest_unreachable) = Done inp_latest"
    by code_simp+
  have sk: "\<not> skipInstall inp_latest" and v: "version inp_latest = Some (js ''latest'')"
    and c: "cache inp_latest = False"
    by (simp_all add: inp_latest_def)
  have b: "bestVersion env_latest (js ''> 0.0.0'') = Inr (js ''501.0.0'')"
    "bestVersion env_latest_unreachable (js ''> 0.0.0'') = Inl (Error (js ''no versions found''))"
    by (simp_all add: env_latest_unreachable_def env_latest_def plain_env_def)
  have f: "toolCache_find env_latest (js ''gcloud'') (js ''501.0.0'') = Inr []"
    by (simp add: env_latest_def plain_env_def)
  have nf: "failures (fst (run env_latest)) = []"
    by code_simp
  have m: "failed_with @ errorMessage env_latest_unreachable (Error (js ''no versions found''))
           = js ''google-github-actions/setup-gcloud failed with: no versions found''"
    by code_simp
  show ?thesis
    using version_latest[OF nr(1) ri(1) sk v] version_latest[OF nr(2) ri(2) sk v] b f c nf m
    by simp
qed

section \<open>Cache hit and cache miss\<close>

text \<open>
  Claim C9. In every run that reads its inputs with \<open>skip_install\<close> false and resolves
  the version to \<open>v\<close> (lines 96--104), the tool cache is probed once, for \<open>gcloud\<close> at
  \<open>v\<close>. When the probe returns a path, the \<open>bin\<close> directory below it is added to the
  search path and the installer is not called: so a run against a warm cache never
  installs. When the probe returns the empty string, the installer is called exactly once,
  with \<open>v\<close> and the \<open>cache\<close> flag, and nothing is added to the search path.
\<close>

theorem cache_probe:
  assumes "\<not> rejected env" and "snd (read_inputs env) = Done inp" and "\<not> skipInstall inp"
    and "snd (resolve_version env (version inp)) = Done v"
  shows "finds (fst (run env)) = [(js ''gcloud'', v)]
         \<and> (\<forall>p. toolCache_find env (js ''gcloud'') v = Inr p \<and> p \<noteq> [] \<longrightarrow>
               addpaths (fst (run env)) = [path_join env p (js ''bin'')]
               \<and> installs (fst (run env)) = [])
         \<and> (toolCache_find env (js ''gcloud'') v = Inr [] \<longrightarrow>
               installs (fst (run env)) = [(v, cache inp)]
               \<and> addpaths (fst (run env)) = [])"
  using assms(1,2)
  by (simp add: run_provisioning install_or_skip_install[OF assms(3,4)])

theorem cache_probe_witness:
  "finds (fst (run env_warm)) = [(js ''gcloud'', js ''4.0.0'')]
   \<and> addpaths (fst (run env_warm)) = [js ''/opt/hostedtoolcache/gcloud/4.0.0/x64/bin'']
   \<and> installs (fst (run env_warm)) = []
   \<and> finds (fst (run env_cold)) = [(js ''gcloud'', js ''4.0.0'')]
   \<and> installs (fst (run env_cold)) = [(js ''4.0.0'', True)]
   \<and> addpaths (fst (run env_cold)) = []"
proof -
  have nr: "\<not> rejected env_warm" "\<not> rejected env_cold"
    by (simp_all add: rejected_def env_warm_def env_cold_def plain_env_def)
  have ri: "snd (read_inputs env_warm) = Done inp_warm" "snd (read_inputs env_cold) = Done inp_cold"
    by code_simp+
  have sk: "\<not> skipInstall inp_warm" "\<not> skipInstall inp_cold" and c: "cache inp_cold = True"
    by (simp_all add: inp_warm_def inp_cold_def)
  have rv: "snd (resolve_version env_warm (version inp_warm)) = Done (js ''4.0.0'')"
    "snd (resolve_version env_cold (version inp_cold)) = Done (js ''4.0.0'')"
    by code_simp+
  have f: "toolCache_find env_warm (js ''gcloud'') (js ''4.0.0'')
             = Inr (js ''/opt/hostedtoolcache/gcloud/4.0.0/x64'')"
    "toolCache_find env_cold (js ''gcloud'') (js ''4.0.0'') = Inr []"
    by (simp_all add: env_warm_def env_cold_def plain_env_def)
  have p: "path_join env_warm (js ''/opt/hostedtoolcache/gcloud/4.0.0/x64'') (js ''bin'')
             = js ''/opt/hostedtoolcache/gcloud/4.0.0/x64/bin''"
    by code_simp
  show ?thesis
    using cache_probe[OF nr(1) ri(1) sk(1) rv(1)] cache_probe[OF nr(2) ri(2) sk(2) rv(2)] f c p
    by simp
qed

section \<open>The warnings of the error boundary\<close>

lemma warning_texts_differ:
  "ignoring_version \<noteq> custom_components_may_fail"
  "ignoring_version \<noteq> not_authenticated"
  "custom_components_may_fail \<noteq> not_authenticated"
  by (simp_all add: ignoring_version_def custom_components_may_fail_def not_authenticated_def
      js_append)

lemma skip_installation_warnings:
  "warnings (fst (skip_installation inp)) =
     (if truthy_opt (version inp) \<and> version inp \<noteq> Some latest then [ignoring_version] else [])
     @ (if truthy (components inp) then [custom_components_may_fail] else [])"
  by (simp add: skip_installation_def seq_simps)

lemma install_or_skip_warnings:
  "warnings (fst (install_or_skip env inp)) =
     (if skipInstall inp then warnings (fst (skip_installation inp)) else [])"
  by (simp add: install_or_skip_def fst_andThen ret_def split: outcome.splits)

lemma authenticate_warnings:
  "warnings (fst (authenticate env)) =
     (if \<not> truthy_opt (GOOGLE_GHA_CREDS_PATH env) \<and> isAuthenticated env \<noteq> Inr True
      then [not_authenticated] else [])"
  by (auto simp add: authenticate_def seq_simps truthy_opt_def split: sum.splits option.splits)

lemma run_main_warnings:
  assumes "snd (read_inputs env) = Done inp"
  shows "warnings (fst (run_main env)) =
           warnings (fst (install_or_skip env inp))
           @ (case snd (install_or_skip env inp) of
                Done v \<Rightarrow>
                  (case snd (install_components env (components inp)) of
                     Done u \<Rightarrow> warnings (fst (authenticate env))
                   | Throw err \<Rightarrow> [] | Exit n \<Rightarrow> [])
              | Throw err \<Rightarrow> [] | Exit n \<Rightarrow> [])"
  using assms
  by (simp add: run_main_trace run_body_trace run_body_outcome run_steps_trace
      split: outcome.splits)

section \<open>The warning about an ignored version\<close>

text \<open>
  Claim C7. A run that the entitlement check lets pass consists of the pre-flight actions
  followed by the actions of the error boundary (lines 72--153). When the inputs are read
  with \<open>skip_install\<close> true, the error boundary emits the warning that \<open>version\<close> is
  ignored exactly once if the \<open>version\<close> input is set to something other than
  \<open>latest\<close>, and not at all if it is \<open>latest\<close> or absent.
\<close>

theorem ignored_version_warning:
  assumes "\<not> rejected env" and "snd (read_inputs env) = Done inp" and "skipInstall inp"
  shows "fst (run env) = fst (preflight env) @ fst (run_main env)
         \<and> count_list (warnings (fst (run_main env))) ignoring_version =
             (if version inp = None \<or> version inp = Some [] \<or> version inp = Some (js ''latest'')
              then 0 else 1)"
proof
  show "fst (run env) = fst (preflight env) @ fst (run_main env)"
    using assms(1) by (rule run_trace)
  have "count_list (warnings (fst (authenticate env))) ignoring_version = 0"
    by (simp add: authenticate_warnings warning_texts_differ)
  moreover have "count_list (warnings (fst (install_or_skip env inp))) ignoring_version =
             (if version inp = None \<or> version inp = Some [] \<or> version inp = Some (js ''latest'')
              then 0 else 1)"
    using assms(3)
    by (auto simp add: install_or_skip_warnings skip_installation_warnings warning_texts_differ
        truthy_opt_def latest_def split: option.splits)
  ultimately show "count_list (warnings (fst (run_main env))) ignoring_version =
             (if version inp = None \<or> version inp = Some [] \<or> version inp = Some (js ''latest'')
              then 0 else 1)"
    by (simp add: run_main_warnings[OF assms(2)] split: outcome.splits)
qed

theorem ignored_version_warning_witness:
  "count_list (warnings (fst (run_main env_skip_pinned))) ignoring_version = 1
   \<and> count_list (warnings (fst (run_main env_skip_latest))) ignoring_version = 0"
proof -
  have nr: "\<not> rejected env_skip_pinned" "\<not> rejected env_skip_latest"
    by (simp_all add: rejected_def env_skip_pinned_def env_skip_latest_def plain_env_def)
  have ri: "snd (read_inputs env_skip_pinned) = Done inp_skip_pinned"
    "snd (read_inputs env_skip_latest) = Done inp_skip_latest"
    by code_simp+
  have sk: "skipInstall inp_skip_pinned" "skipInstall inp_skip_latest"
    by (simp_all add: inp_skip_pinned_def inp_skip_latest_def)
  have v: "version inp_skip_pinned = Some (js ''1.2.3'')"
    "version inp_skip_latest = Some (js ''latest'')"
    by (simp_all add: inp_skip_pinned_def inp_skip_latest_def)
  show ?thesis
    using ignored_version_warning[OF nr(1) ri(1) sk(1)]
      ignored_version_warning[OF nr(2) ri(2) sk(2)] v
    by simp
qed

section \<open>The authentication step\<close>

lemma authenticate_credentials:
  "GOOGLE_GHA_CREDS_PATH env = Some credFile \<Longrightarrow> credFile \<noteq> [] \<Longrightarrow>
   authenticate env =
     (case authenticateGcloudSDK env credFile of
        Inl err \<Rightarrow> ([AuthenticateGcloudSDK credFile], Throw err)
      | Inr u \<Rightarrow>
          ([AuthenticateGcloudSDK credFile, CoreInfo (js ''Successfully authenticated'')], Done ()))"
  by (simp add: authenticate_def truthy_opt_def andThen_def seq_simps split: sum.splits)

lemma authenticate_ambient:
  "GOOGLE_GHA_CREDS_PATH env = None \<or> GOOGLE_GHA_CREDS_PATH env = Some [] \<Longrightarrow>
   authenticate env =
     (if isAuthenticated env = Inr True then ([IsAuthenticated], Done ())
      else ([IsAuthenticated, CoreWarning not_authenticated], Done ()))"
  by (auto simp add: authenticate_def truthy_opt_def andThen_def try_catch_def seq_simps
      split: sum.splits)

lemma run_after_components:
  assumes "\<not> rejected env" and "snd (read_inputs env) = Done inp"
    and "snd (install_or_skip env inp) = Done v"
    and "snd (install_components env (components inp)) = Done ()"
  shows "authentications (fst (run env)) = authentications (fst (authenticate env))"
    and "status_checks (fst (run env)) = status_checks (fst (authenticate env))"
    and "project_settings (fst (run env)) =
           (case snd (authenticate env) of
              Done u \<Rightarrow> project_settings (fst (set_project env (projectId inp)))
            | Throw err \<Rightarrow> [] | Exit n \<Rightarrow> [])"
    and "failures (fst (run env)) =
           (case snd (authenticate env) of
              Done u \<Rightarrow>
                (case snd (set_project env (projectId inp)) of
                   Done u' \<Rightarrow> []
                 | Throw err \<Rightarrow> [failed_with @ errorMessage env err]
                 | Exit n \<Rightarrow> [])
            | Throw err \<Rightarrow> [failed_with @ errorMessage env err]
            | Exit n \<Rightarrow> [])"
    and "outputs (fst (run env)) =
           (case snd (authenticate env) of
              Done u \<Rightarrow>
                (case snd (set_project env (projectId inp)) of
                   Done u' \<Rightarrow> [(js ''version'', v)]
                 | Throw err \<Rightarrow> [] | Exit n \<Rightarrow> [])
            | Throw err \<Rightarrow> [] | Exit n \<Rightarrow> [])"
  using assms
  by (simp_all add: run_trace run_main_trace run_body_trace run_body_outcome run_steps_trace
      run_steps_outcome split: outcome.splits)

section \<open>Credentials file and status check\<close>

text \<open>
  Claim C5. Take a run that gets as far as the authentication step: the entitlement check
  lets it pass, the inputs are read, and the install-or-skip step and the component step
  return. If \<open>GOOGLE_GHA_CREDS_PATH\<close> holds a path (a non-empty string),
  \<open>authenticateGcloudSDK\<close> is called once, with that path, the status check is not made,
  and when the call raises the run is marked failed with that error: no project is set and
  no output is reported. If the variable is unset (or empty, which line 123 treats
  alike), \<open>authenticateGcloudSDK\<close> is not called, \<open>isAuthenticated\<close> is queried once;
  unless it answers true (so also when it raises), the error boundary emits the
  not-authenticated warning exactly once, and this never fails the run: the run is marked
  failed only if setting the project raises.
\<close>

theorem authentication:
  assumes "\<not> rejected env" and "snd (read_inputs env) = Done inp"
    and "snd (install_or_skip env inp) = Done v"
    and "snd (install_components env (components inp)) = Done ()"
  shows "(\<forall>credFile. GOOGLE_GHA_CREDS_PATH env = Some credFile \<and> credFile \<noteq> [] \<longrightarrow>
            authentications (fst (run env)) = [credFile]
            \<and> status_checks (fst (run env)) = []
            \<and> (\<forall>err. authenticateGcloudSDK env credFile = Inl err \<longrightarrow>
                  failures (fst (run env)) = [failed_with @ errorMessage env err]
                  \<and> project_settings (fst (run env)) = []
                  \<and> outputs (fst (run env)) = []))
         \<and> (GOOGLE_GHA_CREDS_PATH env = None \<or> GOOGLE_GHA_CREDS_PATH env = Some [] \<longrightarrow>
            authentications (fst (run env)) = []
            \<and> status_checks (fst (run env)) = [()]
            \<and> count_list (warnings (fst (run_main env))) not_authenticated =
                (if isAuthenticated env = Inr True then 0 else 1)
            \<and> failures (fst (run env)) =
                (case snd (set_project env (projectId inp)) of
                   Done u \<Rightarrow> []
                 | Throw err \<Rightarrow> [failed_with @ errorMessage env err]
                 | Exit n \<Rightarrow> []))"
proof (intro conjI allI impI)
  fix credFile
  assume c: "GOOGLE_GHA_CREDS_PATH env = Some credFile \<and> credFile \<noteq> []"
  then have a: "authenticate env =
     (case authenticateGcloudSDK env credFile of
        Inl err \<Rightarrow> ([AuthenticateGcloudSDK credFile], Throw err)
      | Inr u \<Rightarrow>
          ([AuthenticateGcloudSDK credFile, CoreInfo (js ''Successfully authenticated'')], Done ()))"
    by (simp add: authenticate_credentials)
  show "authentications (fst (run env)) = [credFile]"
    by (simp add: run_after_components[OF assms] a split: sum.splits)
  show "status_checks (fst (run env)) = []"
    by (simp add: run_after_components[OF assms] a split: sum.splits)
  fix err
  assume "authenticateGcloudSDK env credFile = Inl err"
  then have t: "authenticate env = ([AuthenticateGcloudSDK credFile], Throw err)"
    using a by simp
  show "failures (fst (run env)) = [failed_with @ errorMessage env err]"
    by (simp add: run_after_components[OF assms] t)
  show "project_settings (fst (run env)) = []"
    by (simp add: run_after_components[OF assms] t)
  show "outputs (fst (run env)) = []"
    by (simp add: run_after_components[OF assms] t)
next
  assume c: "GOOGLE_GHA_CREDS_PATH env = None \<or> GOOGLE_GHA_CREDS_PATH env = Some []"
  then have a: "authenticate env =
     (if isAuthenticated env = Inr True then ([IsAuthenticated], Done ())
      else ([IsAuthenticated, CoreWarning not_authenticated], Done ()))"
    by (rule authenticate_ambient)
  show "authentications (fst (run env)) = []"
    by (simp add: run_after_components[OF assms] a)
  show "status_checks (fst (run env)) = [()]"
    by (simp add: run_after_components[OF assms] a)
  show "failures (fst (run env)) =
          (case snd (set_project env (projectId inp)) of
             Done u \<Rightarrow> []
           | Throw err \<Rightarrow> [failed_with @ errorMessage env err]
           | Exit n \<Rightarrow> [])"
    by (simp add: run_after_components[OF assms] a)
  have "count_list (warnings (fst (install_or_skip env inp))) not_authenticated = 0"
    by (simp add: install_or_skip_warnings skip_installation_warnings warning_texts_differ
        warning_texts_differ[symmetric])
  then show "count_list (warnings (fst (run_main env))) not_authenticated =
          (if isAuthenticated env = Inr True then 0 else 1)"
    by (simp add: run_main_warnings[OF assms(2)] assms(3,4) a)
qed

theorem authentication_witness:
  "authentications (fst (run env_credentials)) = [js ''/tmp/gha-creds.json'']
   \<and> status_checks (fst (run env_credentials)) = []
   \<and> failures (fst (run env_credentials))
       = [js ''google-github-actions/setup-gcloud failed with: invalid credentials'']
   \<and> outputs (fst (run env_credentials)) = []
   \<and> authentications (fst (run env_check_raises)) = []
   \<and> status_checks (fst (run env_check_raises)) = [()]
   \<and> count_list (warnings (fst (run_main env_check_raises))) not_authenticated = 1
   \<and> failures (fst (run env_check_raises)) = []"
proof -
  have nr: "\<not> rejected env_credentials" "\<not> rejected env_check_raises"
    by (simp_all add: rejected_def env_credentials_def env_check_raises_def plain_env_def)
  have ri: "snd (read_inputs env_credentials) = Done inp_plain"
    "snd (read_inputs env_check_raises) = Done inp_plain"
    by code_simp+
  have st: "snd (install_or_skip env_credentials inp_plain) = Done (Some (js ''> 0.0.0''))"
    "snd (install_or_skip env_check_raises inp_plain) = Done (Some (js ''> 0.0.0''))"
    by code_simp+
  have co: "snd (install_components env_credentials (components inp_plain)) = Done ()"
    "snd (install_components env_check_raises (components inp_plain)) = Done ()"
    by code_simp+
  have c1: "GOOGLE_GHA_CREDS_PATH env_credentials = Some (js ''/tmp/gha-creds.json'')"
    and c2: "authenticateGcloudSDK env_credentials (js ''/tmp/gha-creds.json'')
               = Inl (Error (js ''invalid credentials''))"
    and c3: "GOOGLE_GHA_CREDS_PATH env_check_raises = None"
    and c4: "isAuthenticated env_check_raises \<noteq> Inr True"
    by (simp_all add: env_credentials_def env_check_raises_def plain_env_def)
  have m: "failed_with @ errorMessage env_credentials (Error (js ''invalid credentials''))
           = js ''google-github-actions/setup-gcloud failed with: invalid credentials''"
    by code_simp
  have p: "snd (set_project env_check_raises (projectId inp_plain)) = Done ()"
    by code_simp
  show ?thesis
    using authentication[OF nr(1) ri(1) st(1) co(1)] authentication[OF nr(2) ri(2) st(2) co(2)]
      c1 c2 c3 c4 m p
    by simp
qed

section \<open>Additional components\<close>

lemma length_split_from: "length (split_from sep cur s) = Suc (count_list s sep)"
  by (induction s arbitrary: cur) simp_all

lemma length_split: "length (split s sep) = Suc (count_list s sep)"
  by (simp add: split_def length_split_from)

lemma run_component_installs:
  assumes "\<not> rejected env" and "snd (read_inputs env) = Done inp"
    and "snd (install_or_skip env inp) = Done v"
  shows "component_installs (fst (run env)) =
           (if components inp \<noteq> [] then [map trim (split (components inp) comma)] else [])"
  using assms
  by (simp add: run_trace run_main_trace run_body_trace run_body_outcome run_steps_trace
      install_components_def truthy_def call_def ret_def split: outcome.splits sum.splits)

text \<open>
  Claim C2, as stated, fails: a stray comma leaves an empty entry in the list passed to
  \<open>installComponent\<close>. With \<open>install_components\<close> equal to \<open>a,,b\<close> the one call is
  with the three entries \<open>a\<close>, the empty string and \<open>b\<close>.
\<close>

theorem stray_comma_keeps_empty_entry:
  "component_installs (fst (run env_stray_comma)) = [[js ''a'', [], js ''b'']]"
  by code_simp

text \<open>
  Claim C2, amended. In every run that gets as far as the component step (the entitlement
  check lets it pass, the inputs are read and the install-or-skip step returns) with a
  non-empty \<open>install_components\<close>, \<open>installComponent\<close> is called exactly once, with the
  pieces of the string between its commas, in order, each trimmed. No piece is dropped:
  the list has one entry more than the string has commas, so a stray comma leaves an empty
  entry. The input \<open> a, b ,c\<close> gives the list \<open>a\<close>, \<open>b\<close>, \<open>c\<close>.
\<close>

theorem component_install:
  assumes "\<not> rejected env" and "snd (read_inputs env) = Done inp"
    and "snd (install_or_skip env inp) = Done v" and "components inp \<noteq> []"
  shows "components inp = getInput env (js ''install_components'')
         \<and> component_installs (fst (run env)) = [map trim (split (components inp) comma)]
         \<and> length (map trim (split (components inp) comma)) = Suc (count_list (components inp) comma)"
proof -
  have "components inp = getInput env (js ''install_components'')"
    using assms(2) by (auto simp add: read_inputs_outcome split: sum.splits)
  then show ?thesis
    using assms(4) by (simp add: run_component_installs[OF assms(1,2,3)] length_split)
qed

theorem component_install_witness:
  "component_installs (fst (run env_components)) = [[js ''a'', js ''b'', js ''c'']]"
proof -
  have nr: "\<not> rejected env_components"
    by (simp add: rejected_def env_components_def plain_env_def)
  have ri: "snd (read_inputs env_components) = Done inp_components"
    by code_simp
  have st: "snd (install_or_skip env_components inp_components) = Done (Some (js ''> 0.0.0''))"
    by code_simp
  have ne: "components inp_components \<noteq> []"
    by (simp add: inp_components_def)
  have l: "map trim (split (components inp_components) comma) = [js ''a'', js ''b'', js ''c'']"
    by code_simp
  show ?thesis
    using component_install[OF nr ri st ne] l by simp
qed

section \<open>A step that returns made no call that raised\<close>

lemma raised_simps [simp]:
  "raised env (AxiosGet url ms) = False"
  "raised env (CoreError m) = False"
  "raised env (CoreInfo m) = False"
  "raised env (CoreWarning m) = False"
  "raised env (CoreDebug m) = False"
  "raised env (ExportVariable k w) = False"
  "raised env (SetProcessEnv k w) = False"
  "raised env (GetInput k) = False"
  "raised env (AddPath p) = False"
  "raised env (SetOutput k ov) = False"
  "raised env (SetFailed m) = False"
  "raised env IsAuthenticated = False"
  "raised env (BestVersion a) = isl (bestVersion env a)"
  "raised env (ToolCacheFind n v) = isl (toolCache_find env n v)"
  "raised env (InstallGcloudSDK v c) = isl (installGcloudSDK env v c)"
  "raised env (InstallComponent l) = isl (installComponent env l)"
  "raised env (AuthenticateGcloudSDK p) = isl (authenticateGcloudSDK env p)"
  "raised env (SetProject p) = isl (setProject env p)"
  by (simp_all add: raised_def)

lemma preflight_not_raised [simp]: "\<not> list_ex (raised env) (fst (preflight env))"
  by (simp add: preflight_def validateSubscription_def seq_simps split: sum.splits)

lemma read_inputs_not_raised [simp]: "\<not> list_ex (raised env) (fst (read_inputs env))"
  by (simp add: read_inputs_trace split: sum.splits)

lemma resolve_version_not_raised:
  "snd (resolve_version env v0) = Done v \<Longrightarrow> \<not> list_ex (raised env) (fst (resolve_version env v0))"
  by (auto simp add: resolve_version_def seq_simps split: sum.splits option.splits if_splits)

lemma find_or_install_not_raised:
  "snd (find_or_install env v c) = Done u \<Longrightarrow> \<not> list_ex (raised env) (fst (find_or_install env v c))"
  by (auto simp add: find_or_install_cases gcloud_def split: sum.splits if_splits)

lemma install_or_skip_not_raised:
  "snd (install_or_skip env inp) = Done v \<Longrightarrow> \<not> list_ex (raised env) (fst (install_or_skip env inp))"
  by (auto simp add: install_or_skip_def skip_installation_def seq_simps
      resolve_version_not_raised find_or_install_not_raised split: outcome.splits if_splits)

lemma install_components_not_raised:
  "snd (install_components env cs) = Done u \<Longrightarrow>
   \<not> list_ex (raised env) (fst (install_components env cs))"
  by (auto simp add: install_components_def seq_simps split: sum.splits if_splits)

lemma authenticate_not_raised:
  "snd (authenticate env) = Done u \<Longrightarrow> \<not> list_ex (raised env) (fst (authenticate env))"
  by (auto simp add: authenticate_def seq_simps split: sum.splits option.splits if_splits)

lemma set_project_not_raised:
  "snd (set_project env pid) = Done u \<Longrightarrow> \<not> list_ex (raised env) (fst (set_project env pid))"
  by (auto simp add: set_project_def seq_simps split: sum.splits if_splits)

lemma run_steps_done:
  assumes "snd (run_steps env inp) = Done ()"
  shows "\<exists>pre v. fst (run_steps env inp) = pre @ [SetOutput (js ''version'') v]
           \<and> outputs pre = [] \<and> failures pre = [] \<and> \<not> list_ex (raised env) pre"
proof -
  from assms obtain v where
    a: "snd (install_or_skip env inp) = Done v"
      "snd (install_components env (components inp)) = Done ()"
      "snd (authenticate env) = Done ()"
      "snd (set_project env (projectId inp)) = Done ()"
    by (auto simp add: run_steps_outcome split: outcome.splits)
  let ?pre = "fst (install_or_skip env inp) @ fst (install_components env (components inp))
              @ fst (authenticate env) @ fst (set_project env (projectId inp))"
  have "fst (run_steps env inp) = ?pre @ [SetOutput (js ''version'') v]"
    using a by (simp add: run_steps_trace)
  moreover have "outputs ?pre = []" "failures ?pre = []"
    by simp_all
  moreover have "\<not> list_ex (raised env) ?pre"
    using a
    by (simp add: install_or_skip_not_raised install_components_not_raised
        authenticate_not_raised set_project_not_raised)
  ultimately show ?thesis by blast
qed

lemma run_steps_thrown:
  assumes "snd (run_steps env inp) = Throw err"
  shows "outputs (fst (run_steps env inp)) = [] \<and> failures (fst (run_steps env inp)) = []"
  using assms
  by (simp add: run_steps_trace run_steps_outcome split: outcome.splits)

lemma run_main_shape:
  "(\<exists>pre v. fst (run_main env) = pre @ [SetOutput (js ''version'') v]
       \<and> outputs pre = [] \<and> failures pre = [] \<and> \<not> list_ex (raised env) pre)
   \<or> (outputs (fst (run_main env)) = []
       \<and> (\<exists>err. failures (fst (run_main env)) = [failed_with @ errorMessage env err]))"
proof (cases "snd (read_inputs env)")
  case (Done inp)
  show ?thesis
  proof (cases "snd (run_steps env inp)")
    case inner: (Done u)
    then have "snd (run_steps env inp) = Done ()" by simp
    from run_steps_done[OF this] obtain pre v where
      p: "fst (run_steps env inp) = pre @ [SetOutput (js ''version'') v]"
        "outputs pre = []" "failures pre = []" "\<not> list_ex (raised env) pre"
      by blast
    have "fst (run_main env) = (fst (read_inputs env) @ pre) @ [SetOutput (js ''version'') v]"
      using Done inner p(1) by (simp add: run_main_trace run_body_trace run_body_outcome)
    moreover have "outputs (fst (read_inputs env) @ pre) = []"
      "failures (fst (read_inputs env) @ pre) = []"
      "\<not> list_ex (raised env) (fst (read_inputs env) @ pre)"
      using p by simp_all
    ultimately show ?thesis by blast
  next
    case (Throw err)
    then show ?thesis
      using Done run_steps_thrown[OF Throw]
      by (auto simp add: run_main_trace run_body_trace run_body_outcome)
  next
    case (Exit n)
    then show ?thesis by simp
  qed
next
  case (Throw err)
  then show ?thesis
    by (auto simp add: run_main_trace run_body_trace run_body_outcome)
next
  case (Exit n)
  then show ?thesis by simp
qed

section \<open>The step output\<close>

text \<open>
  Claim C10. Whenever a run sets a step output, that is its very last action, the output
  is \<open>version\<close>, it is set once, and the run was not marked failed. Whenever a call of
  \<open>bestVersion\<close>, \<open>toolCache.find\<close>, \<open>installGcloudSDK\<close>, \<open>installComponent\<close>,
  \<open>authenticateGcloudSDK\<close> or \<open>setProject\<close> made by the run raised, the run is
  marked failed, once, with the message of an error, and no step output is set.
\<close>

theorem output_is_last:
  "(outputs (fst (run env)) \<noteq> [] \<longrightarrow>
      (\<exists>pre v. fst (run env) = pre @ [SetOutput (js ''version'') v]
         \<and> outputs pre = [] \<and> failures pre = []))
   \<and> (list_ex (raised env) (fst (run env)) \<longrightarrow>
      outputs (fst (run env)) = []
      \<and> (\<exists>err. failures (fst (run env)) = [failed_with @ errorMessage env err]))"
proof (cases "rejected env")
  case True
  then show ?thesis by (simp add: run_rejected)
next
  case False
  then have t: "fst (run env) = fst (preflight env) @ fst (run_main env)"
    by (rule run_trace)
  from run_main_shape[of env] show ?thesis
  proof
    assume "\<exists>pre v. fst (run_main env) = pre @ [SetOutput (js ''version'') v]
       \<and> outputs pre = [] \<and> failures pre = [] \<and> \<not> list_ex (raised env) pre"
    then obtain pre v where
      p: "fst (run_main env) = pre @ [SetOutput (js ''version'') v]"
        "outputs pre = []" "failures pre = []" "\<not> list_ex (raised env) pre"
      by blast
    have "fst (run env) = (fst (preflight env) @ pre) @ [SetOutput (js ''version'') v]"
      using t p(1) by simp
    moreover have "outputs (fst (preflight env) @ pre) = []"
      "failures (fst (preflight env) @ pre) = []"
      using p by simp_all
    moreover have "\<not> list_ex (raised env) (fst (run env))"
      using t p by simp
    ultimately show ?thesis by blast
  next
    assume "outputs (fst (run_main env)) = []
       \<and> (\<exists>err. failures (fst (run_main env)) = [failed_with @ errorMessage env err])"
    then show ?thesis using t by simp
  qed
qed

theorem output_is_last_witness:
  "(\<exists>pre v. fst (run plain_env) = pre @ [SetOutput (js ''version'') v]
       \<and> outputs pre = [] \<and> failures pre = [])
   \<and> outputs (fst (run env_install_fails)) = []
   \<and> (\<exists>err. failures (fst (run env_install_fails))
         = [failed_with @ errorMessage env_install_fails err])"
proof -
  have o: "outputs (fst (run plain_env)) \<noteq> []"
    by code_simp
  have r: "list_ex (raised env_install_fails) (fst (run env_install_fails))"
    by code_simp
  show ?thesis
    using output_is_last[of plain_env] output_is_last[of env_install_fails] o r by blast
qed

end
